theory Spec2Isabelle
  imports Complex_Main "HOL-Library.Word"
begin

section \<open>The classroom lighting simulator\<close>

text \<open>
  A shallow embedding of the range matching, scoring and pixel transform code of
  \<^verbatim>\<open>New/simulator.js\<close>, \<^verbatim>\<open>classroom-simulator.js\<close> and
  \<^verbatim>\<open>comparisn.-grid.js\<close>. The pixel transform and the environment score are the same
  text in both simulator files; \<^verbatim>\<open>updateParameterValidation\<close> is in the first only.

  JavaScript numbers are modelled as exact reals: the rounding of IEEE-754 doubles, NaN and
  the infinities are outside the model. Where the source relies on \<^verbatim>\<open>Infinity\<close>
  (the initial distance of a closest-range search) or can divide by zero, the model says so
  with an \<open>option\<close>. Values known to be integers (the result of \<^verbatim>\<open>clamp\<close>,
  counters) are \<open>int\<close> or \<open>nat\<close>; the bytes of a \<^verbatim>\<open>Uint8ClampedArray\<close>
  are \<open>8 word\<close>.
\<close>

subsection \<open>Numeric helpers\<close>

text \<open>\<^verbatim>\<open>function lerp(a, b, t) { return a + (b - a) * t; }\<close>\<close>

definition lerp :: "real \<Rightarrow> real \<Rightarrow> real \<Rightarrow> real" where
  "lerp a b t = a + (b - a) * t"

text \<open>
  \<^verbatim>\<open>function clamp(value) { return Math.max(0, Math.min(255, Math.round(value))); }\<close>
  \<^verbatim>\<open>Math.round\<close> rounds to the nearest integer, halves upwards, which is
  \<open>round x = \<lfloor>x + 1/2\<rfloor>\<close>.
\<close>

definition clamp :: "real \<Rightarrow> int" where
  "clamp v = max 0 (min 255 (round v))"

subsection \<open>The lighting transform\<close>

text \<open>
  The first block of \<^verbatim>\<open>processImageWithLighting\<close>: the chain of comparisons on
  \<^verbatim>\<open>kelvin\<close> that assigns \<^verbatim>\<open>redMultiplier\<close>, \<^verbatim>\<open>greenMultiplier\<close>
  and \<^verbatim>\<open>blueMultiplier\<close>, returned here as a triple in that order.
\<close>

definition kelvinMultipliers :: "real \<Rightarrow> real \<times> real \<times> real" where
  "kelvinMultipliers kelvin =
     (if kelvin \<le> 2000 then (1.8, 0.8, 0.4)
      else if kelvin \<le> 3000 then (1.6, 0.9, 0.5)
      else if kelvin \<le> 4000 then (1.3, 1.0, 0.7)
      else if kelvin \<le> 5000 then (1.1, 1.0, 0.9)
      else if kelvin \<le> 6000 then (0.9, 1.0, 1.1)
      else if kelvin \<le> 7000 then (0.7, 0.9, 1.3)
      else (0.5, 0.8, 1.6))"

text \<open>
  The second block: the value assigned to \<^verbatim>\<open>brightnessMultiplier\<close>, with the
  intermediate \<^verbatim>\<open>highGlareFactor\<close> of the branch above 19.
\<close>

definition brightnessMultiplier :: "real \<Rightarrow> real" where
  "brightnessMultiplier glare =
     (if glare \<le> 19 then 1.0 + (glare / 19) * 0.3
      else (let highGlareFactor = (glare - 19) / 9 in 1.3 + (highGlareFactor * 2.7)))"

text \<open>
  The body of the pixel loop, stage by stage. \<open>applyCCT\<close> and \<open>applyGlare\<close> are the two
  groups of three \<^verbatim>\<open>clamp\<close> assignments; \<open>applyCRI\<close> is the rest of the body up to,
  and not including, the final \<^verbatim>\<open>clamp\<close> of the stores. \<^verbatim>\<open>avg\<close> is computed
  once, from the channels as they are after the glare stage, and both blends use it.
\<close>

definition applyCCT :: "real \<times> real \<times> real \<Rightarrow> real \<times> real \<times> real \<Rightarrow> int \<times> int \<times> int" where
  "applyCCT mults px =
     (case mults of (redMultiplier, greenMultiplier, blueMultiplier) \<Rightarrow>
      case px of (r, g, b) \<Rightarrow>
        (clamp (r * redMultiplier), clamp (g * greenMultiplier), clamp (b * blueMultiplier)))"

definition applyGlare :: "real \<Rightarrow> int \<times> int \<times> int \<Rightarrow> int \<times> int \<times> int" where
  "applyGlare brightness px =
     (case px of (r, g, b) \<Rightarrow>
        (clamp (real_of_int r * brightness),
         clamp (real_of_int g * brightness),
         clamp (real_of_int b * brightness)))"

definition applyCRI :: "real \<Rightarrow> int \<times> int \<times> int \<Rightarrow> real \<times> real \<times> real" where
  "applyCRI cri px =
     (case px of (r0, g0, b0) \<Rightarrow>
        let criFactor = cri / 100;
            avg = (real_of_int r0 + real_of_int g0 + real_of_int b0) / 3;
            (r, g, b) =
              (if cri < 95
               then (lerp (real_of_int r0) avg (1 - criFactor),
                     lerp (real_of_int g0) avg (1 - criFactor),
                     lerp (real_of_int b0) avg (1 - criFactor))
               else (real_of_int r0, real_of_int g0, real_of_int b0))
        in (lerp r avg (0.5 * (1 - criFactor)),
            lerp g avg (0.5 * (1 - criFactor)),
            lerp b avg (0.5 * (1 - criFactor))))"

text \<open>
  One iteration: the three bytes read, the three numbers handed to the final
  \<^verbatim>\<open>clamp\<close> calls of the stores.
\<close>

definition processPixel ::
  "real \<times> real \<times> real \<Rightarrow> real \<Rightarrow> real \<Rightarrow> 8 word \<times> 8 word \<times> 8 word \<Rightarrow> int \<times> int \<times> int" where
  "processPixel mults brightness cri px =
     (case px of (r, g, b) \<Rightarrow>
      case applyCRI cri (applyGlare brightness
             (applyCCT mults (real (unat r), real (unat g), real (unat b)))) of
        (r', g', b') \<Rightarrow> (clamp r', clamp g', clamp b'))"

text \<open>
  A store into a \<^verbatim>\<open>Uint8ClampedArray\<close> clamps the number to the byte range; the
  numbers stored here are integers already, so no rounding is involved.
\<close>

definition ToUint8Clamp :: "int \<Rightarrow> 8 word" where
  "ToUint8Clamp x = (if x \<le> 0 then 0 else if 255 \<le> x then 255 else word_of_int x)"

text \<open>
  \<^verbatim>\<open>for (let i = 0; i < data.length; i += 4) { ... }\<close> as a recursion on \<open>i\<close>. A store
  beyond the end of a typed array is ignored, as \<open>list_update\<close> does. The reads at
  \<open>i + 1\<close> and \<open>i + 2\<close> are inside the array whenever its length is a multiple of four,
  which the \<^verbatim>\<open>ImageData\<close> constructor guarantees.
\<close>

function pixelLoop ::
  "real \<times> real \<times> real \<Rightarrow> real \<Rightarrow> real \<Rightarrow> nat \<Rightarrow> 8 word list \<Rightarrow> 8 word list" where
  "pixelLoop mults brightness cri i data =
     (if i < length data then
        (case processPixel mults brightness cri (data ! i, data ! (i + 1), data ! (i + 2)) of
           (r, g, b) \<Rightarrow>
             pixelLoop mults brightness cri (i + 4)
               (data[i := ToUint8Clamp r, i + 1 := ToUint8Clamp g, i + 2 := ToUint8Clamp b]))
      else data)"
  by pat_completeness auto
termination
  by (relation "measure (\<lambda>(mults, brightness, cri, i, data). length data - i)") auto

declare pixelLoop.simps [simp del]

record ImageData =
  data :: "8 word list"
  width :: nat
  height :: nat

datatype DOMException = InvalidStateError | IndexSizeError

text \<open>
  The platform's \<^verbatim>\<open>new ImageData(array, sw, sh)\<close>: it throws unless the array holds
  exactly \<open>4 * sw * sh\<close> bytes, for a non-empty image.
\<close>

definition new_ImageData :: "8 word list \<Rightarrow> nat \<Rightarrow> nat \<Rightarrow> DOMException + ImageData" where
  "new_ImageData d sw sh =
     (if length d = 0 \<or> length d mod 4 \<noteq> 0 then Inl InvalidStateError
      else if sw = 0 \<or> (length d div 4) mod sw \<noteq> 0 \<or> (length d div 4) div sw \<noteq> sh
      then Inl IndexSizeError
      else Inr \<lparr>data = d, width = sw, height = sh\<rparr>)"

text \<open>
  The module-level state the transform touches: \<^verbatim>\<open>originalImageData\<close> (\<open>None\<close> for
  \<^verbatim>\<open>null\<close>) and the pixels of the canvas, set by \<^verbatim>\<open>ctx.putImageData(imageData, 0, 0)\<close>.
  \<^verbatim>\<open>ctx\<close> is assigned before \<^verbatim>\<open>originalImageData\<close> ever is, so it is present whenever
  the early return is not taken.
\<close>

record simulator =
  originalImageData :: "ImageData option"
  canvasPixels :: "ImageData option"

definition processImageWithLighting ::
  "real \<Rightarrow> real \<Rightarrow> real \<Rightarrow> real \<Rightarrow> simulator \<Rightarrow> DOMException + simulator" where
  "processImageWithLighting cct cri glare flicker s =
     (case originalImageData s of
        None \<Rightarrow> Inr s
      | Some orig \<Rightarrow>
          (case new_ImageData (data orig) (width orig) (height orig) of
             Inl e \<Rightarrow> Inl e
           | Inr imageData \<Rightarrow>
               Inr (s\<lparr>canvasPixels :=
                      Some (imageData\<lparr>data :=
                        pixelLoop (kelvinMultipliers cct) (brightnessMultiplier glare) cri 0
                          (data imageData)\<rparr>)\<rparr>)))"


definition well_formed :: "ImageData \<Rightarrow> bool" where
  "well_formed img \<longleftrightarrow>
     0 < width img \<and> 0 < height img \<and> length (data img) = 4 * width img * height img"

subsection \<open>Strings and units\<close>

text \<open>
  \<^verbatim>\<open>toLowerCase\<close> and \<^verbatim>\<open>toUpperCase\<close> on the ASCII letters, which is all that the
  rating labels use.
\<close>

definition toLowerCase_char :: "char \<Rightarrow> char" where
  "toLowerCase_char c =
     (case map_of (zip ''ABCDEFGHIJKLMNOPQRSTUVWXYZ'' ''abcdefghijklmnopqrstuvwxyz'') c of
        None \<Rightarrow> c
      | Some l \<Rightarrow> l)"

definition toLowerCase :: "string \<Rightarrow> string" where
  "toLowerCase s = map toLowerCase_char s"

definition toUpperCase_char :: "char \<Rightarrow> char" where
  "toUpperCase_char c =
     (case map_of (zip ''abcdefghijklmnopqrstuvwxyz'' ''ABCDEFGHIJKLMNOPQRSTUVWXYZ'') c of
        None \<Rightarrow> c
      | Some u \<Rightarrow> u)"

definition toUpperCase :: "string \<Rightarrow> string" where
  "toUpperCase s = map toUpperCase_char s"

text \<open>\<^verbatim>\<open>getUnit(param)\<close>: the lookup in the \<^verbatim>\<open>units\<close> table, \<^verbatim>\<open>''\<close> by default.\<close>

definition getUnit :: "string \<Rightarrow> string" where
  "getUnit p =
     (case map_of
        [(''CCT'', ''K''), (''CRI'', ''''), (''Flicker'', ''HZ''), (''UGR'', ''''),
         (''Uniformity'', ''''), (''Melanopic_EDI'', ''''), (''Vertical_Illuminance'', ''lux''),
         (''Exposure_Duration'', ''hours''), (''Lux'', ''lux'')] p of
        None \<Rightarrow> ''''
      | Some u \<Rightarrow> u)"

text \<open>
  \<^verbatim>\<open>getRatingPriority(rating)\<close>: \<^verbatim>\<open>priorities[rating.toLowerCase()] || 0\<close>. Every
  label other than the three of the table has priority 0.
\<close>

definition getRatingPriority :: "string \<Rightarrow> nat" where
  "getRatingPriority r =
     (let k = toLowerCase r in
      if k = ''good'' then 3 else if k = ''medium'' then 2 else if k = ''bad'' then 1 else 0)"

subsection \<open>Parameter range records\<close>

text \<open>
  A record of the reference data: \<^verbatim>\<open>{range: {min, max}, rating, reason, recommendation}\<close>.
  The source tests \<^verbatim>\<open>paramData.range\<close> before using it in some places and not in others,
  so a record may lack its range (\<open>None\<close>).
\<close>

record range_t =
  range_min :: real
  range_max :: real

record paramData =
  prange :: "range_t option"
  rating :: string
  reason :: string
  recommendation :: string

datatype jsError = TypeError

text \<open>\<^verbatim>\<open>currentValue >= min && currentValue <= max\<close>\<close>

definition inRange :: "real \<Rightarrow> range_t \<Rightarrow> bool" where
  "inRange currentValue rg \<longleftrightarrow> currentValue \<ge> range_min rg \<and> currentValue \<le> range_max rg"

text \<open>
  \<^verbatim>\<open>p.range && currentValue >= p.range.min && currentValue <= p.range.max\<close>, the test
  of a record that has to have a range to pass.
\<close>

definition matches :: "real \<Rightarrow> paramData \<Rightarrow> bool" where
  "matches currentValue p =
     (case prange p of None \<Rightarrow> False | Some rg \<Rightarrow> inRange currentValue rg)"

text \<open>
  \<^verbatim>\<open>distance < closest\<close> where \<open>closest\<close> starts as \<^verbatim>\<open>Infinity\<close> (\<open>None\<close>) and is a
  finite distance afterwards.
\<close>

definition closer :: "real \<Rightarrow> real option \<Rightarrow> bool" where
  "closer distance closest = (case closest of None \<Rightarrow> True | Some c \<Rightarrow> distance < c)"

subsection \<open>\<^verbatim>\<open>updateParameterValidation\<close> (New/simulator.js)\<close>

text \<open>
  The first loop: \<^verbatim>\<open>bestMatch\<close> and \<^verbatim>\<open>bestRating\<close> are the loop state, starting at
  \<^verbatim>\<open>null\<close> and \<^verbatim>\<open>'bad'\<close>. A record replaces the best one only when its priority is
  strictly greater.
\<close>

fun matchLoop ::
  "real \<Rightarrow> paramData list \<Rightarrow> paramData option \<times> string \<Rightarrow> paramData option \<times> string" where
  "matchLoop currentValue [] st = st"
| "matchLoop currentValue (p # rest) (bestMatch, bestRating) =
     (case prange p of
        None \<Rightarrow> matchLoop currentValue rest (bestMatch, bestRating)
      | Some rg \<Rightarrow>
          if inRange currentValue rg then
            (let r = toLowerCase (rating p) in
             if getRatingPriority r > getRatingPriority bestRating
             then matchLoop currentValue rest (Some p, r)
             else matchLoop currentValue rest (bestMatch, bestRating))
          else matchLoop currentValue rest (bestMatch, bestRating))"

text \<open>
  The second loop, run when the first found nothing: the distance of a record is the
  smaller of the distances to its two bounds.
\<close>

fun closestLoop ::
  "real \<Rightarrow> paramData list \<Rightarrow> paramData option \<times> real option \<Rightarrow> paramData option \<times> real option"
  where
  "closestLoop currentValue [] st = st"
| "closestLoop currentValue (p # rest) (bestMatch, closestDistance) =
     (case prange p of
        None \<Rightarrow> closestLoop currentValue rest (bestMatch, closestDistance)
      | Some rg \<Rightarrow>
          (let distanceToMin = \<bar>currentValue - range_min rg\<bar>;
               distanceToMax = \<bar>currentValue - range_max rg\<bar>;
               minDistance = min distanceToMin distanceToMax
           in if closer minDistance closestDistance
              then closestLoop currentValue rest (Some p, Some minDistance)
              else closestLoop currentValue rest (bestMatch, closestDistance)))"

text \<open>
  The text written to the status element, with the holes of the template literals kept as
  fields: \<^verbatim>\<open>BAD - Outside recommended range (min-max unit)\<close> and
  \<^verbatim>\<open>RATING - reason\<close>.
\<close>

datatype statusText =
  NoDataAvailable
  | OutsideRecommendedRange real real string
  | RatingReason string string
  | NoStandardsAvailable

record statusElement =
  textContent :: statusText
  className :: string

text \<open>
  \<open>statusElement\<close> is the result of \<^verbatim>\<open>document.getElementById(statusElementId)\<close>, and
  \<open>paramDataArray\<close> is \<open>None\<close> when the argument is not an array. Reading
  \<^verbatim>\<open>bestMatch.range\<close> of a record without a range would throw.
\<close>

definition updateParameterValidation ::
  "string \<Rightarrow> real \<Rightarrow> paramData list option \<Rightarrow> statusElement option \<Rightarrow>
   jsError + statusElement option" where
  "updateParameterValidation paramName currentValue paramDataArray statusElement =
     (case statusElement of
        None \<Rightarrow> Inr None
      | Some el \<Rightarrow>
          (case paramDataArray of
             None \<Rightarrow>
               Inr (Some (el\<lparr>textContent := NoDataAvailable,
                              className := ''validation-status evaluating''\<rparr>))
           | Some arr \<Rightarrow>
               if length arr = 0
               then Inr (Some (el\<lparr>textContent := NoDataAvailable,
                                   className := ''validation-status evaluating''\<rparr>))
               else
                 (let (bestMatch, bestRating) = matchLoop currentValue arr (None, ''bad'');
                      (bestMatch, bestRating) =
                        (if bestMatch = None \<and> length arr > 0
                         then (fst (closestLoop currentValue arr (None, None)), ''bad'')
                         else (bestMatch, bestRating))
                  in case bestMatch of
                       None \<Rightarrow>
                         Inr (Some (el\<lparr>textContent := NoStandardsAvailable,
                                        className := ''validation-status '' @ bestRating\<rparr>))
                     | Some m \<Rightarrow>
                         (let reasonText =
                                (if reason m = '''' then ''Standard lighting parameter''
                                 else reason m)
                          in if bestRating = ''bad'' \<and> \<not> list_ex (matches currentValue) arr
                             then (case prange m of
                                     None \<Rightarrow> Inl TypeError
                                   | Some rg \<Rightarrow>
                                       Inr (Some (el\<lparr>textContent :=
                                                        OutsideRecommendedRange (range_min rg)
                                                          (range_max rg) (getUnit paramName),
                                                      className :=
                                                        ''validation-status '' @ bestRating\<rparr>)))
                             else Inr (Some (el\<lparr>textContent :=
                                                  RatingReason (toUpperCase bestRating) reasonText,
                                                className :=
                                                  ''validation-status '' @ bestRating\<rparr>))))))"

subsection \<open>\<^verbatim>\<open>comparisonCards\<close> (comparisn.-grid.js)\<close>

text \<open>
  The two \<^verbatim>\<open>forEach\<close> loops of the body that handles one parameter. Both read
  \<^verbatim>\<open>rec.range.min\<close> unguarded, which throws on a record without a range. The first keeps
  the last record whose range holds the value; the second keeps the first record whose
  midpoint is strictly closer than all before it.
\<close>

fun findBestMatch ::
  "real \<Rightarrow> paramData list \<Rightarrow> paramData option \<times> string \<Rightarrow>
   jsError + paramData option \<times> string" where
  "findBestMatch currentValue [] st = Inr st"
| "findBestMatch currentValue (p # rest) (bestMatch, bestRating) =
     (case prange p of
        None \<Rightarrow> Inl TypeError
      | Some rg \<Rightarrow>
          if inRange currentValue rg
          then findBestMatch currentValue rest (Some p, rating p)
          else findBestMatch currentValue rest (bestMatch, bestRating))"

fun findClosestRange ::
  "real \<Rightarrow> paramData list \<Rightarrow> paramData option \<times> real option \<Rightarrow>
   jsError + paramData option \<times> real option" where
  "findClosestRange currentValue [] st = Inr st"
| "findClosestRange currentValue (p # rest) (closestRange, minDistance) =
     (case prange p of
        None \<Rightarrow> Inl TypeError
      | Some rg \<Rightarrow>
          (let rangeMid = (range_min rg + range_max rg) / 2;
               distance = \<bar>currentValue - rangeMid\<bar>
           in if closer distance minDistance
              then findClosestRange currentValue rest (Some p, Some distance)
              else findClosestRange currentValue rest (closestRange, minDistance)))"

text \<open>
  The alert appended to the card of one parameter, with the holes of its template kept as
  fields: the rating card (alert class, upper-cased rating, reason, recommendation, range and
  unit), the card for a value outside every range (value, unit, range of the closest record,
  unit, its recommendation), and the card without recommendations.
\<close>

datatype card =
  RatingCard string string string string real real string
  | OutsideCard real string real real string string
  | UnknownCard

text \<open>
  The body of the loop of \<^verbatim>\<open>comparisonCards\<close> for one parameter whose current value is
  a number and whose recommendations are an array.
\<close>

definition comparisonCard :: "string \<Rightarrow> real \<Rightarrow> paramData list \<Rightarrow> jsError + card" where
  "comparisonCard p currentValue recommendations =
     (case findBestMatch currentValue recommendations (None, ''unknown'') of
        Inl e \<Rightarrow> Inl e
      | Inr (bestMatch, bestRating) \<Rightarrow>
          (case bestMatch of
             Some m \<Rightarrow>
               (case prange m of
                  None \<Rightarrow> Inl TypeError
                | Some rg \<Rightarrow>
                    Inr (RatingCard
                           (if bestRating = ''good'' then ''alert-success'' else ''alert-danger'')
                           (toUpperCase bestRating) (reason m) (recommendation m)
                           (range_min rg) (range_max rg) (getUnit p)))
           | None \<Rightarrow>
               (case findClosestRange currentValue recommendations (None, None) of
                  Inl e \<Rightarrow> Inl e
                | Inr (closestRange, minDistance) \<Rightarrow>
                    (case closestRange of
                       Some c \<Rightarrow>
                         (case prange c of
                            None \<Rightarrow> Inl TypeError
                          | Some rg \<Rightarrow>
                              Inr (OutsideCard currentValue (getUnit p) (range_min rg)
                                     (range_max rg) (getUnit p) (recommendation c)))
                     | None \<Rightarrow> Inr UnknownCard))))"

subsection \<open>The environment score of \<^verbatim>\<open>updateRecommendationCards\<close>\<close>

text \<open>
  A division whose result is \<open>None\<close> when the divisor is zero, where JavaScript yields
  \<^verbatim>\<open>NaN\<close> or an infinity instead of a number.
\<close>

definition js_div :: "real \<Rightarrow> real \<Rightarrow> real option" where
  "js_div a b = (if b = 0 then None else Some (a / b))"

text \<open>
  The \<^verbatim>\<open>reason\<close> of an entry pushed on \<^verbatim>\<open>recommendations\<close>: the stored reason of the
  record, or the message
  \<^verbatim>\<open>Value v unit is outside recommended range (lower-upper unit)\<close> with its holes as
  fields.
\<close>

datatype reasonText =
  StoredReason string
  | OutsideRange real string "real option" "real option" string

record recommendationItem =
  item_param :: string
  item_status :: string
  item_reason :: reasonText
  item_recommendation :: string

text \<open>
  The two bounds of the message:
  \<^verbatim>\<open>param == "Flicker" ? (1 / max) * 10000 : min\<close> and
  \<^verbatim>\<open>param == "Flicker" ? (1 / min) * 10000 : max\<close>.
\<close>

definition lowerBound :: "string \<Rightarrow> range_t \<Rightarrow> real option" where
  "lowerBound p rg =
     (if p = ''Flicker'' then map_option (\<lambda>q. q * 10000) (js_div 1 (range_max rg))
      else Some (range_min rg))"

definition upperBound :: "string \<Rightarrow> range_t \<Rightarrow> real option" where
  "upperBound p rg =
     (if p = ''Flicker'' then map_option (\<lambda>q. q * 10000) (js_div 1 (range_min rg))
      else Some (range_max rg))"

text \<open>
  \<^verbatim>\<open>for (const param in envData)\<close> for the selected environment, with the loop state
  \<^verbatim>\<open>totalScore\<close>, \<^verbatim>\<open>totalParams\<close> and \<^verbatim>\<open>recommendations\<close>. \<open>envData\<close> lists the
  keys of the object in iteration order, and \<open>currentValues\<close> maps a key to its number when
  the key is there.
\<close>

fun scoreLoop ::
  "(string \<rightharpoonup> real) \<Rightarrow> (string \<times> paramData) list \<Rightarrow>
   nat \<times> nat \<times> recommendationItem list \<Rightarrow> nat \<times> nat \<times> recommendationItem list" where
  "scoreLoop currentValues [] st = st"
| "scoreLoop currentValues ((p, pd) # rest) (totalScore, totalParams, recommendations) =
     (if p = ''range'' \<or> p = ''images''
      then scoreLoop currentValues rest (totalScore, totalParams, recommendations)
      else
        (case currentValues p of
           None \<Rightarrow> scoreLoop currentValues rest (totalScore, totalParams, recommendations)
         | Some currentValue \<Rightarrow>
             (case prange pd of
                None \<Rightarrow> scoreLoop currentValues rest (totalScore, totalParams, recommendations)
              | Some rg \<Rightarrow>
                  if inRange currentValue rg
                  then scoreLoop currentValues rest
                         (totalScore + 1, totalParams + 1,
                          recommendations @
                            [\<lparr>item_param = p, item_status = ''Recommended'',
                              item_reason = StoredReason (reason pd),
                              item_recommendation = recommendation pd\<rparr>])
                  else scoreLoop currentValues rest
                         (totalScore, totalParams + 1,
                          recommendations @
                            [\<lparr>item_param = p, item_status = ''Not Recommended'',
                              item_reason =
                                OutsideRange currentValue (getUnit p) (lowerBound p rg)
                                  (upperBound p rg) (getUnit p),
                              item_recommendation = recommendation pd\<rparr>]))))"

text \<open>
  \<^verbatim>\<open>totalParams > 0 ? (totalScore / totalParams) * 100 : 0\<close>, and the banding of the
  result.
\<close>

definition recommendationPercentage :: "nat \<Rightarrow> nat \<Rightarrow> real option" where
  "recommendationPercentage totalScore totalParams =
     (if totalParams > 0
      then map_option (\<lambda>q. q * 100) (js_div (real totalScore) (real totalParams))
      else Some 0)"

definition overallStatus :: "real option \<Rightarrow> string" where
  "overallStatus percentage =
     (case percentage of
        None \<Rightarrow> ''Not Recommended''
      | Some q \<Rightarrow>
          if q \<ge> 80 then ''Highly Recommended''
          else if q \<ge> 60 then ''Recommended''
          else ''Not Recommended'')"

text \<open>The score of one environment: the loop from the empty state, then the percentage.\<close>

definition environmentScore ::
  "(string \<rightharpoonup> real) \<Rightarrow> (string \<times> paramData) list \<Rightarrow> nat \<times> nat \<times> real option" where
  "environmentScore currentValues envData =
     (case scoreLoop currentValues envData (0, 0, []) of
        (totalScore, totalParams, recommendations) \<Rightarrow>
          (totalScore, totalParams, recommendationPercentage totalScore totalParams))"

subsection \<open>Notions used to state the properties of the matchers\<close>

text \<open>
  The priority that the first loop of \<^verbatim>\<open>updateParameterValidation\<close> gives a record:
  \<^verbatim>\<open>getRatingPriority(paramData.rating.toLowerCase())\<close>.
\<close>

definition recordPriority :: "paramData \<Rightarrow> nat" where
  "recordPriority p = getRatingPriority (toLowerCase (rating p))"

text \<open>
  The two distances from a value to a range: to the midpoint, as \<^verbatim>\<open>comparisonCards\<close>
  computes it, and to the nearer bound, as \<^verbatim>\<open>updateParameterValidation\<close> does.
\<close>

definition midpointDistance :: "real \<Rightarrow> range_t \<Rightarrow> real" where
  "midpointDistance currentValue rg = \<bar>currentValue - (range_min rg + range_max rg) / 2\<bar>"

definition boundDistance :: "real \<Rightarrow> range_t \<Rightarrow> real" where
  "boundDistance currentValue rg =
     min \<bar>currentValue - range_min rg\<bar> \<bar>currentValue - range_max rg\<bar>"

text \<open>
  The entries of an environment that the score counts, and those it counts as matched.
\<close>

definition counted :: "(string \<rightharpoonup> real) \<Rightarrow> string \<times> paramData \<Rightarrow> bool" where
  "counted currentValues e =
     (case e of (p, pd) \<Rightarrow>
        p \<noteq> ''range'' \<and> p \<noteq> ''images'' \<and> currentValues p \<noteq> None \<and> prange pd \<noteq> None)"

definition scored :: "(string \<rightharpoonup> real) \<Rightarrow> string \<times> paramData \<Rightarrow> bool" where
  "scored currentValues e =
     (case e of (p, pd) \<Rightarrow>
        p \<noteq> ''range'' \<and> p \<noteq> ''images'' \<and>
        (case currentValues p of None \<Rightarrow> False | Some v \<Rightarrow> matches v pd))"

subsection \<open>Loop invariants of the matchers\<close>

text \<open>
  The state of the first loop of \<^verbatim>\<open>updateParameterValidation\<close> after the records \<open>pre\<close>: nothing yet, and then every matching record so far is
  rated no better than bad; or the first of the matching records of highest priority.
\<close>

definition best_so_far :: "real \<Rightarrow> paramData list \<Rightarrow> paramData option \<times> string \<Rightarrow> bool" where
  "best_so_far v pre st =
     (case st of (bestMatch, bestRating) \<Rightarrow>
        (case bestMatch of
           None \<Rightarrow> bestRating = ''bad'' \<and> (\<forall>q\<in>set pre. matches v q \<longrightarrow> recordPriority q \<le> 1)
         | Some m \<Rightarrow>
             bestRating = toLowerCase (rating m) \<and> matches v m \<and> 1 < recordPriority m \<and>
             (\<exists>as bs. pre = as @ m # bs \<and>
                (\<forall>q\<in>set as. matches v q \<longrightarrow> recordPriority q < recordPriority m) \<and>
                (\<forall>q\<in>set bs. matches v q \<longrightarrow> recordPriority q \<le> recordPriority m))))"

text \<open>
  The state of its second loop after the records \<open>pre\<close>: nothing yet, and then no record
  so far has a range; or the first of the records whose nearer bound is closest.
\<close>

definition closest_so_far ::
  "real \<Rightarrow> paramData list \<Rightarrow> paramData option \<times> real option \<Rightarrow> bool" where
  "closest_so_far v pre st =
     (case st of (bestMatch, closestDistance) \<Rightarrow>
        (case bestMatch of
           None \<Rightarrow> closestDistance = None \<and> (\<forall>q\<in>set pre. prange q = None)
         | Some m \<Rightarrow>
             (\<exists>rg as bs. prange m = Some rg \<and> closestDistance = Some (boundDistance v rg) \<and>
                pre = as @ m # bs \<and>
                (\<forall>q\<in>set as. \<forall>r. prange q = Some r \<longrightarrow>
                   boundDistance v rg < boundDistance v r) \<and>
                (\<forall>q\<in>set bs. \<forall>r. prange q = Some r \<longrightarrow>
                   boundDistance v rg \<le> boundDistance v r))))"

text \<open>
  The states of the two loops of \<^verbatim>\<open>comparisonCards\<close> after the records \<open>pre\<close>: the
  last record whose range holds the value, and the first of the records whose midpoint is
  closest.
\<close>

definition last_match_so_far ::
  "real \<Rightarrow> paramData list \<Rightarrow> paramData option \<times> string \<Rightarrow> bool" where
  "last_match_so_far v pre st =
     (case st of (bestMatch, bestRating) \<Rightarrow>
        (case bestMatch of
           None \<Rightarrow> (\<forall>q\<in>set pre. \<not> matches v q)
         | Some m \<Rightarrow>
             bestRating = rating m \<and> matches v m \<and>
             (\<exists>as bs. pre = as @ m # bs \<and> (\<forall>q\<in>set bs. \<not> matches v q))))"

definition nearest_so_far ::
  "real \<Rightarrow> paramData list \<Rightarrow> paramData option \<times> real option \<Rightarrow> bool" where
  "nearest_so_far v pre st =
     (case st of (closestRange, minDistance) \<Rightarrow>
        (case closestRange of
           None \<Rightarrow> minDistance = None \<and> pre = []
         | Some m \<Rightarrow>
             (\<exists>rg as bs. prange m = Some rg \<and> minDistance = Some (midpointDistance v rg) \<and>
                pre = as @ m # bs \<and>
                (\<forall>q\<in>set as. \<forall>r. prange q = Some r \<longrightarrow>
                   midpointDistance v rg < midpointDistance v r) \<and>
                (\<forall>q\<in>set bs. \<forall>r. prange q = Some r \<longrightarrow>
                   midpointDistance v rg \<le> midpointDistance v r))))"

section \<open>The lighting transform: auxiliary facts\<close>








subsection \<open>The pixel loop\<close>

lemma pixelLoop_done: "\<not> i < length d \<Longrightarrow> pixelLoop mults brightness cri i d = d"
  by (subst pixelLoop.simps) simp

lemma pixelLoop_step:
  "i < length d \<Longrightarrow>
   processPixel mults brightness cri (d ! i, d ! (i + 1), d ! (i + 2)) = (r, g, b) \<Longrightarrow>
   pixelLoop mults brightness cri i d =
     pixelLoop mults brightness cri (i + 4)
       (d[i := ToUint8Clamp r, i + 1 := ToUint8Clamp g, i + 2 := ToUint8Clamp b])"
  by (subst pixelLoop.simps) simp

lemma length_pixelLoop: "length (pixelLoop mults brightness cri i d) = length d"
proof (induction mults brightness cri i d rule: pixelLoop.induct)
  case (1 mults brightness cri i d)
  show ?case
  proof (cases "i < length d")
    case True
    obtain r g b
      where p: "processPixel mults brightness cri (d ! i, d ! (i + 1), d ! (i + 2)) = (r, g, b)"
      by (cases "processPixel mults brightness cri (d ! i, d ! (i + 1), d ! (i + 2))")
    from "1.IH" [OF True p [symmetric] refl] show ?thesis
      by (simp add: pixelLoop_step [OF True p])
  next
    case False
    then show ?thesis by (simp add: pixelLoop_done)
  qed
qed

text \<open>
  With the loop index at the start of a pixel, the bytes below it and every fourth byte
  keep their value.
\<close>

lemma pixelLoop_unchanged:
  "i mod 4 = 0 \<Longrightarrow> j < i \<or> j mod 4 = 3 \<Longrightarrow> pixelLoop mults brightness cri i d ! j = d ! j"
proof (induction mults brightness cri i d rule: pixelLoop.induct)
  case (1 mults brightness cri i d)
  show ?case
  proof (cases "i < length d")
    case True
    obtain r g b
      where p: "processPixel mults brightness cri (d ! i, d ! (i + 1), d ! (i + 2)) = (r, g, b)"
      by (cases "processPixel mults brightness cri (d ! i, d ! (i + 1), d ! (i + 2))")
    let ?d' = "d[i := ToUint8Clamp r, i + 1 := ToUint8Clamp g, i + 2 := ToUint8Clamp b]"
    from "1.prems" have next_ok: "(i + 4) mod 4 = 0" "j < i + 4 \<or> j mod 4 = 3"
      by auto
    from "1.prems" have "j \<noteq> i" "j \<noteq> i + 1" "j \<noteq> i + 2"
      by presburger+
    then have "?d' ! j = d ! j" by simp
    with "1.IH" [OF True p [symmetric] refl next_ok] show ?thesis
      by (simp add: pixelLoop_step [OF True p])
  next
    case False
    then show ?thesis by (simp add: pixelLoop_done)
  qed
qed




subsection \<open>The whole transform\<close>

lemma new_ImageData_well_formed:
  "well_formed img \<Longrightarrow> new_ImageData (data img) (width img) (height img) = Inr img"
  by (simp add: new_ImageData_def well_formed_def)

lemma new_ImageData_Inr:
  "new_ImageData (data img) (width img) (height img) = Inr x \<Longrightarrow> x = img"
  by (auto simp add: new_ImageData_def split: if_splits)

lemma process_result:
  assumes "originalImageData s = Some img"
    and "processImageWithLighting cct cri glare flicker s = Inr s'"
  shows "s' = s\<lparr>canvasPixels := Some (img\<lparr>data :=
           pixelLoop (kelvinMultipliers cct) (brightnessMultiplier glare) cri 0 (data img)\<rparr>)\<rparr>"
proof (cases "new_ImageData (data img) (width img) (height img)")
  case (Inl e)
  with assms show ?thesis by (simp add: processImageWithLighting_def)
next
  case (Inr x)
  then have "x = img" by (rule new_ImageData_Inr)
  with assms Inr show ?thesis by (auto simp add: processImageWithLighting_def)
qed

lemma process_returns:
  assumes "originalImageData s = Some img" and "well_formed img"
  shows "processImageWithLighting cct cri glare flicker s =
     Inr (s\<lparr>canvasPixels := Some (img\<lparr>data :=
           pixelLoop (kelvinMultipliers cct) (brightnessMultiplier glare) cri 0 (data img)\<rparr>)\<rparr>)"
  using assms by (simp add: processImageWithLighting_def new_ImageData_well_formed)

subsection \<open>The blends of the CRI stage\<close>





subsection \<open>A one-pixel image, step by step\<close>

lemma example_multipliers:
  "kelvinMultipliers 5000 = (1.1, 1.0, 0.9)" "brightnessMultiplier 6 = 104 / 95"
  by (simp_all add: kelvinMultipliers_def brightnessMultiplier_def)

lemma example_bytes:
  "(real (unat (200 :: 8 word)), real (unat (100 :: 8 word)), real (unat (50 :: 8 word))) =
     (200, 100, 50)"
  by simp

lemma example_applyCCT: "applyCCT (1.1, 1.0, 0.9) (200, 100, 50) = (220, 100, 45)"
  by (simp add: applyCCT_def clamp_def round_def)

lemma example_applyGlare: "applyGlare (104 / 95) (220, 100, 45) = (241, 109, 49)"
  by (simp add: applyGlare_def clamp_def round_def)

lemma example_applyCRI: "applyCRI 80 (241, 109, 49) = (210.76, 115.72, 72.52)"
  by (simp add: applyCRI_def lerp_def Let_def)

lemma example_clamp: "clamp 210.76 = 211" "clamp 115.72 = 116" "clamp 72.52 = 73"
  by (simp_all add: clamp_def round_def)

lemma example_pixel:
  "processPixel (kelvinMultipliers 5000) (brightnessMultiplier 6) 80 (200, 100, 50) =
     (211, 116, 73)"
  unfolding processPixel_def prod.case example_multipliers example_bytes example_applyCCT
    example_applyGlare example_applyCRI example_clamp ..

lemma example_loop:
  "pixelLoop (kelvinMultipliers 5000) (brightnessMultiplier 6) 80 0 [200, 100, 50, 255] =
     [211, 116, 73, 255]"
proof -
  have "pixelLoop (kelvinMultipliers 5000) (brightnessMultiplier 6) 80 0 [200, 100, 50, 255] =
      pixelLoop (kelvinMultipliers 5000) (brightnessMultiplier 6) 80 (0 + 4)
        ([200, 100, 50, 255]
           [0 := ToUint8Clamp 211, 0 + 1 := ToUint8Clamp 116, 0 + 2 := ToUint8Clamp 73])"
    by (rule pixelLoop_step) (simp_all add: example_pixel)
  also have "\<dots> = [211, 116, 73, 255]"
    by (simp add: pixelLoop_done ToUint8Clamp_def)
  finally show ?thesis .
qed

lemma example_run:
  "processImageWithLighting 5000 80 6 flicker
     \<lparr>originalImageData = Some \<lparr>data = [200, 100, 50, 255], width = 1, height = 1\<rparr>,
      canvasPixels = previous\<rparr> =
   Inr \<lparr>originalImageData = Some \<lparr>data = [200, 100, 50, 255], width = 1, height = 1\<rparr>,
        canvasPixels = Some \<lparr>data = [211, 116, 73, 255], width = 1, height = 1\<rparr>\<rparr>"
  by (simp add: processImageWithLighting_def new_ImageData_def example_loop)

section \<open>The range matchers: auxiliary facts\<close>

lemma priority_values:
  "getRatingPriority ''good'' = 3" "getRatingPriority ''medium'' = 2"
  "getRatingPriority ''bad'' = 1" "getRatingPriority ''unknown'' = 0"
  by (simp_all add: getRatingPriority_def toLowerCase_def toLowerCase_char_def)

lemma matches_Some: "prange p = Some rg \<Longrightarrow> matches v p = inRange v rg"
  by (simp add: matches_def)

lemma matches_None: "prange p = None \<Longrightarrow> \<not> matches v p"
  by (simp add: matches_def)

subsection \<open>The first loop of \<^verbatim>\<open>updateParameterValidation\<close>\<close>

lemma best_so_far_priority:
  "best_so_far v pre (bestMatch, bestRating) \<Longrightarrow> q \<in> set pre \<Longrightarrow> matches v q \<Longrightarrow>
   recordPriority q \<le> getRatingPriority bestRating"
  by (cases bestMatch)
    (auto simp add: best_so_far_def priority_values recordPriority_def less_imp_le)

lemma best_so_far_skip:
  assumes "best_so_far v pre (bestMatch, bestRating)"
    and "matches v p \<longrightarrow> recordPriority p \<le> getRatingPriority bestRating"
  shows "best_so_far v (pre @ [p]) (bestMatch, bestRating)"
proof (cases bestMatch)
  case None
  with assms show ?thesis by (auto simp add: best_so_far_def priority_values)
next
  case (Some m)
  with assms(1) obtain as bs where d: "pre = as @ m # bs"
    "\<forall>q\<in>set as. matches v q \<longrightarrow> recordPriority q < recordPriority m"
    "\<forall>q\<in>set bs. matches v q \<longrightarrow> recordPriority q \<le> recordPriority m"
    and m: "bestRating = toLowerCase (rating m)" "matches v m" "1 < recordPriority m"
    by (auto simp add: best_so_far_def)
  from assms(2) m(1) have "matches v p \<longrightarrow> recordPriority p \<le> recordPriority m"
    by (simp add: recordPriority_def)
  with d have "pre @ [p] = as @ m # (bs @ [p]) \<and>
      (\<forall>q\<in>set as. matches v q \<longrightarrow> recordPriority q < recordPriority m) \<and>
      (\<forall>q\<in>set (bs @ [p]). matches v q \<longrightarrow> recordPriority q \<le> recordPriority m)"
    by simp
  with Some m show ?thesis unfolding best_so_far_def by (simp only: prod.case option.case) blast
qed

lemma best_so_far_take:
  assumes "best_so_far v pre (bestMatch, bestRating)" and "matches v p"
    and "getRatingPriority bestRating < recordPriority p"
  shows "best_so_far v (pre @ [p]) (Some p, toLowerCase (rating p))"
proof -
  from assms(1) have "1 \<le> getRatingPriority bestRating"
    by (cases bestMatch) (auto simp add: best_so_far_def priority_values recordPriority_def)
  with assms(3) have one: "1 < recordPriority p" by simp
  have "\<forall>q\<in>set pre. matches v q \<longrightarrow> recordPriority q < recordPriority p"
    using best_so_far_priority [OF assms(1)] assms(3) by fastforce
  then have "pre @ [p] = pre @ p # [] \<and>
      (\<forall>q\<in>set pre. matches v q \<longrightarrow> recordPriority q < recordPriority p) \<and>
      (\<forall>q\<in>set []. matches v q \<longrightarrow> recordPriority q \<le> recordPriority p)"
    by simp
  with assms(2) one show ?thesis
    unfolding best_so_far_def by (simp only: prod.case option.case) blast
qed

lemma matchLoop_best_so_far:
  "best_so_far v pre st \<Longrightarrow> best_so_far v (pre @ rest) (matchLoop v rest st)"
proof (induction rest arbitrary: pre st)
  case Nil
  then show ?case by simp
next
  case (Cons p rest)
  obtain bestMatch bestRating where st: "st = (bestMatch, bestRating)" by (cases st)
  have app: "pre @ p # rest = (pre @ [p]) @ rest" by simp
  show ?case
  proof (cases "matches v p \<and> getRatingPriority bestRating < recordPriority p")
    case True
    then obtain rg where rg: "prange p = Some rg" "inRange v rg"
      by (auto simp add: matches_def split: option.splits)
    from True Cons.prems st
    have "best_so_far v (pre @ [p]) (Some p, toLowerCase (rating p))"
      by (simp add: best_so_far_take)
    from Cons.IH [OF this] True rg st show ?thesis
      unfolding app by (simp add: recordPriority_def Let_def)
  next
    case False
    with Cons.prems st have "best_so_far v (pre @ [p]) (bestMatch, bestRating)"
      by (intro best_so_far_skip) auto
    from Cons.IH [OF this] False st show ?thesis
      unfolding app
      by (auto simp add: recordPriority_def Let_def matches_def split: option.splits)
  qed
qed

lemma matchLoop_spec:
  "best_so_far v arr (matchLoop v arr (None, ''bad''))"
proof -
  have "best_so_far v [] (None, ''bad'')" by (simp add: best_so_far_def)
  from matchLoop_best_so_far [OF this, of arr] show ?thesis by simp
qed

subsection \<open>The second loop of \<^verbatim>\<open>updateParameterValidation\<close>\<close>

lemma closest_so_far_skip_rangeless:
  assumes "closest_so_far v pre st" and "prange p = None"
  shows "closest_so_far v (pre @ [p]) st"
proof -
  obtain bestMatch closestDistance where st: "st = (bestMatch, closestDistance)" by (cases st)
  show ?thesis
  proof (cases bestMatch)
    case None
    with assms st show ?thesis by (auto simp add: closest_so_far_def)
  next
    case (Some m)
    with assms(1) st obtain rg as bs where d: "prange m = Some rg"
      "closestDistance = Some (boundDistance v rg)" "pre = as @ m # bs"
      "\<forall>q\<in>set as. \<forall>r. prange q = Some r \<longrightarrow> boundDistance v rg < boundDistance v r"
      "\<forall>q\<in>set bs. \<forall>r. prange q = Some r \<longrightarrow> boundDistance v rg \<le> boundDistance v r"
      by (auto simp add: closest_so_far_def)
    from d(3,5) assms(2) have "pre @ [p] = as @ m # (bs @ [p]) \<and>
        (\<forall>q\<in>set (bs @ [p]). \<forall>r. prange q = Some r \<longrightarrow> boundDistance v rg \<le> boundDistance v r)"
      by auto
    with d(1,2,4) Some st show ?thesis
      unfolding closest_so_far_def by (simp only: prod.case option.case) blast
  qed
qed

lemma closest_so_far_keep:
  assumes "closest_so_far v pre (bestMatch, closestDistance)" and "prange p = Some r"
    and "\<not> closer (boundDistance v r) closestDistance"
  shows "closest_so_far v (pre @ [p]) (bestMatch, closestDistance)"
proof (cases bestMatch)
  case None
  with assms show ?thesis by (simp add: closest_so_far_def closer_def)
next
  case (Some m)
  with assms(1) obtain rg as bs where d: "prange m = Some rg"
    "closestDistance = Some (boundDistance v rg)" "pre = as @ m # bs"
    "\<forall>q\<in>set as. \<forall>r. prange q = Some r \<longrightarrow> boundDistance v rg < boundDistance v r"
    "\<forall>q\<in>set bs. \<forall>r. prange q = Some r \<longrightarrow> boundDistance v rg \<le> boundDistance v r"
    by (auto simp add: closest_so_far_def)
  from assms(3) d(2) have "boundDistance v rg \<le> boundDistance v r"
    by (simp add: closer_def)
  with d(3,5) assms(2) have "pre @ [p] = as @ m # (bs @ [p]) \<and>
      (\<forall>q\<in>set (bs @ [p]). \<forall>r. prange q = Some r \<longrightarrow> boundDistance v rg \<le> boundDistance v r)"
    by auto
  with d(1,2,4) Some show ?thesis
    unfolding closest_so_far_def by (simp only: prod.case option.case) blast
qed

lemma closest_so_far_take:
  assumes "closest_so_far v pre (bestMatch, closestDistance)" and "prange p = Some r"
    and "closer (boundDistance v r) closestDistance"
  shows "closest_so_far v (pre @ [p]) (Some p, Some (boundDistance v r))"
proof -
  have "\<forall>q\<in>set pre. \<forall>r'. prange q = Some r' \<longrightarrow> boundDistance v r < boundDistance v r'"
  proof (cases bestMatch)
    case None
    with assms(1) show ?thesis by (simp add: closest_so_far_def)
  next
    case (Some m)
    with assms(1) obtain rg as bs where d: "prange m = Some rg"
      "closestDistance = Some (boundDistance v rg)" "pre = as @ m # bs"
      "\<forall>q\<in>set as. \<forall>r. prange q = Some r \<longrightarrow> boundDistance v rg < boundDistance v r"
      "\<forall>q\<in>set bs. \<forall>r. prange q = Some r \<longrightarrow> boundDistance v rg \<le> boundDistance v r"
      by (auto simp add: closest_so_far_def)
    from assms(3) d(2) have "boundDistance v r < boundDistance v rg"
      by (simp add: closer_def)
    with d(1,3,4,5) show ?thesis by fastforce
  qed
  then have "pre @ [p] = pre @ p # [] \<and>
      (\<forall>q\<in>set pre. \<forall>r'. prange q = Some r' \<longrightarrow> boundDistance v r < boundDistance v r') \<and>
      (\<forall>q\<in>set []. \<forall>r'. prange q = Some r' \<longrightarrow> boundDistance v r \<le> boundDistance v r')"
    by simp
  with assms(2) show ?thesis
    unfolding closest_so_far_def by (simp only: prod.case option.case) blast
qed

lemma closestLoop_closest_so_far:
  "closest_so_far v pre st \<Longrightarrow> closest_so_far v (pre @ rest) (closestLoop v rest st)"
proof (induction rest arbitrary: pre st)
  case Nil
  then show ?case by simp
next
  case (Cons p rest)
  obtain bestMatch closestDistance where st: "st = (bestMatch, closestDistance)" by (cases st)
  have app: "pre @ p # rest = (pre @ [p]) @ rest" by simp
  show ?case
  proof (cases "prange p")
    case None
    with Cons.prems have "closest_so_far v (pre @ [p]) st"
      by (intro closest_so_far_skip_rangeless)
    from Cons.IH [OF this] None st show ?thesis unfolding app by simp
  next
    case (Some r)
    show ?thesis
    proof (cases "closer (boundDistance v r) closestDistance")
      case True
      with Cons.prems st Some
      have "closest_so_far v (pre @ [p]) (Some p, Some (boundDistance v r))"
        by (simp add: closest_so_far_take)
      from Cons.IH [OF this] True Some st show ?thesis
        unfolding app by (simp add: boundDistance_def Let_def)
    next
      case False
      with Cons.prems st Some
      have "closest_so_far v (pre @ [p]) (bestMatch, closestDistance)"
        by (simp add: closest_so_far_keep)
      from Cons.IH [OF this] False Some st show ?thesis
        unfolding app by (simp add: boundDistance_def Let_def)
    qed
  qed
qed

lemma closestLoop_spec: "closest_so_far v arr (closestLoop v arr (None, None))"
proof -
  have "closest_so_far v [] (None, None)" by (simp add: closest_so_far_def)
  from closestLoop_closest_so_far [OF this, of arr] show ?thesis by simp
qed

subsection \<open>The loops of \<^verbatim>\<open>comparisonCards\<close>\<close>

lemma findBestMatch_total:
  "\<forall>q\<in>set rest. prange q \<noteq> None \<Longrightarrow> \<exists>st'. findBestMatch v rest st = Inr st'"
proof (induction rest arbitrary: st)
  case Nil
  then show ?case by simp
next
  case (Cons p rest)
  obtain bestMatch bestRating where st: "st = (bestMatch, bestRating)" by (cases st)
  from Cons.prems obtain rg where rg: "prange p = Some rg" by auto
  from Cons.prems have "\<forall>q\<in>set rest. prange q \<noteq> None" by simp
  from Cons.IH [OF this] st rg show ?case by simp
qed

lemma findBestMatch_last_match:
  "findBestMatch v rest st = Inr st' \<Longrightarrow> last_match_so_far v pre st \<Longrightarrow>
   last_match_so_far v (pre @ rest) st'"
proof (induction rest arbitrary: pre st)
  case Nil
  then show ?case by simp
next
  case (Cons p rest)
  obtain bestMatch bestRating where st: "st = (bestMatch, bestRating)" by (cases st)
  from Cons.prems(1) st obtain rg where rg: "prange p = Some rg"
    by (cases "prange p") auto
  have app: "pre @ p # rest = (pre @ [p]) @ rest" by simp
  show ?case
  proof (cases "inRange v rg")
    case True
    with rg have "matches v p" by (simp add: matches_def)
    then have "last_match_so_far v (pre @ [p]) (Some p, rating p)"
      unfolding last_match_so_far_def by (simp only: prod.case option.case) fastforce
    moreover from Cons.prems(1) st rg True
    have "findBestMatch v rest (Some p, rating p) = Inr st'" by simp
    ultimately show ?thesis unfolding app by (rule Cons.IH [rotated])
  next
    case False
    with rg have no: "\<not> matches v p" by (simp add: matches_def)
    have "last_match_so_far v (pre @ [p]) (bestMatch, bestRating)"
    proof (cases bestMatch)
      case None
      with Cons.prems(2) st no show ?thesis by (auto simp add: last_match_so_far_def)
    next
      case (Some m)
      with Cons.prems(2) st obtain as bs where d: "bestRating = rating m" "matches v m"
        "pre = as @ m # bs" "\<forall>q\<in>set bs. \<not> matches v q"
        by (auto simp add: last_match_so_far_def)
      from d(3,4) no have "pre @ [p] = as @ m # (bs @ [p]) \<and> (\<forall>q\<in>set (bs @ [p]). \<not> matches v q)"
        by simp
      with d(1,2) Some show ?thesis
        unfolding last_match_so_far_def by (simp only: prod.case option.case) blast
    qed
    moreover from Cons.prems(1) st rg False
    have "findBestMatch v rest (bestMatch, bestRating) = Inr st'" by simp
    ultimately show ?thesis unfolding app by (rule Cons.IH [rotated])
  qed
qed

lemma findBestMatch_spec:
  "findBestMatch v arr (None, ''unknown'') = Inr st' \<Longrightarrow> last_match_so_far v arr st'"
proof -
  assume run: "findBestMatch v arr (None, ''unknown'') = Inr st'"
  have "last_match_so_far v [] (None, ''unknown'')" by (simp add: last_match_so_far_def)
  from findBestMatch_last_match [OF run this] show ?thesis by simp
qed

lemma findClosestRange_total:
  "\<forall>q\<in>set rest. prange q \<noteq> None \<Longrightarrow> \<exists>st'. findClosestRange v rest st = Inr st'"
proof (induction rest arbitrary: st)
  case Nil
  then show ?case by simp
next
  case (Cons p rest)
  obtain closestRange minDistance where st: "st = (closestRange, minDistance)" by (cases st)
  from Cons.prems obtain rg where rg: "prange p = Some rg" by auto
  from Cons.prems have "\<forall>q\<in>set rest. prange q \<noteq> None" by simp
  from Cons.IH [OF this] st rg show ?case by (simp add: Let_def)
qed

lemma nearest_so_far_step:
  assumes "nearest_so_far v pre (closestRange, minDistance)" and "prange p = Some r"
  shows "nearest_so_far v (pre @ [p])
     (if closer (midpointDistance v r) minDistance
      then (Some p, Some (midpointDistance v r)) else (closestRange, minDistance))"
proof (cases closestRange)
  case None
  with assms(1) have e: "minDistance = None" "pre = []" by (simp_all add: nearest_so_far_def)
  then have c: "closer (midpointDistance v r) minDistance" by (simp add: closer_def)
  have "[p] = [] @ p # [] \<and>
      (\<forall>q\<in>set []. \<forall>r'. prange q = Some r' \<longrightarrow> midpointDistance v r < midpointDistance v r') \<and>
      (\<forall>q\<in>set []. \<forall>r'. prange q = Some r' \<longrightarrow> midpointDistance v r \<le> midpointDistance v r')"
    by simp
  with assms(2) have "nearest_so_far v [p] (Some p, Some (midpointDistance v r))"
    unfolding nearest_so_far_def by (simp only: prod.case option.case) blast
  with c e show ?thesis by simp
next
  case (Some m)
  with assms(1) obtain rg as bs where d: "prange m = Some rg"
    "minDistance = Some (midpointDistance v rg)" "pre = as @ m # bs"
    "\<forall>q\<in>set as. \<forall>r. prange q = Some r \<longrightarrow> midpointDistance v rg < midpointDistance v r"
    "\<forall>q\<in>set bs. \<forall>r. prange q = Some r \<longrightarrow> midpointDistance v rg \<le> midpointDistance v r"
    by (auto simp add: nearest_so_far_def)
  show ?thesis
  proof (cases "closer (midpointDistance v r) minDistance")
    case True
    with d(2) have lt: "midpointDistance v r < midpointDistance v rg" by (simp add: closer_def)
    with d(1,3,4,5)
    have "\<forall>q\<in>set pre. \<forall>r'. prange q = Some r' \<longrightarrow> midpointDistance v r < midpointDistance v r'"
      by fastforce
    then have "pre @ [p] = pre @ p # [] \<and>
        (\<forall>q\<in>set pre. \<forall>r'. prange q = Some r' \<longrightarrow>
           midpointDistance v r < midpointDistance v r') \<and>
        (\<forall>q\<in>set []. \<forall>r'. prange q = Some r' \<longrightarrow>
           midpointDistance v r \<le> midpointDistance v r')"
      by simp
    with assms(2) have "nearest_so_far v (pre @ [p]) (Some p, Some (midpointDistance v r))"
      unfolding nearest_so_far_def by (simp only: prod.case option.case) blast
    with True show ?thesis by simp
  next
    case False
    with d(2) have "midpointDistance v rg \<le> midpointDistance v r" by (simp add: closer_def)
    with d(3,5) assms(2) have "pre @ [p] = as @ m # (bs @ [p]) \<and>
        (\<forall>q\<in>set (bs @ [p]). \<forall>r. prange q = Some r \<longrightarrow>
           midpointDistance v rg \<le> midpointDistance v r)"
      by auto
    with d(1,2,4) Some
    have "nearest_so_far v (pre @ [p]) (closestRange, minDistance)"
      unfolding nearest_so_far_def by (simp only: prod.case option.case) blast
    with False show ?thesis by simp
  qed
qed

lemma findClosestRange_nearest:
  "findClosestRange v rest st = Inr st' \<Longrightarrow> nearest_so_far v pre st \<Longrightarrow>
   nearest_so_far v (pre @ rest) st'"
proof (induction rest arbitrary: pre st)
  case Nil
  then show ?case by simp
next
  case (Cons p rest)
  obtain closestRange minDistance where st: "st = (closestRange, minDistance)" by (cases st)
  from Cons.prems(1) st obtain r where r: "prange p = Some r"
    by (cases "prange p") auto
  have app: "pre @ p # rest = (pre @ [p]) @ rest" by simp
  let ?next = "if closer (midpointDistance v r) minDistance
      then (Some p, Some (midpointDistance v r)) else (closestRange, minDistance)"
  from Cons.prems(2) st r have "nearest_so_far v (pre @ [p]) ?next"
    by (simp only: nearest_so_far_step)
  moreover from Cons.prems(1) st r have "findClosestRange v rest ?next = Inr st'"
    by (simp add: midpointDistance_def Let_def split: if_splits)
  ultimately show ?case unfolding app by (rule Cons.IH [rotated])
qed

lemma findClosestRange_spec:
  "findClosestRange v arr (None, None) = Inr st' \<Longrightarrow> nearest_so_far v arr st'"
proof -
  assume run: "findClosestRange v arr (None, None) = Inr st'"
  have "nearest_so_far v [] (None, None)" by (simp add: nearest_so_far_def)
  from findClosestRange_nearest [OF run this] show ?thesis by simp
qed

subsection \<open>The results of the two matchers\<close>

lemma updateParameterValidation_matched:
  assumes "\<exists>q\<in>set arr. matches v q \<and> 1 < recordPriority q"
  shows "\<exists>as m bs. arr = as @ m # bs \<and> matches v m \<and>
           (\<forall>q\<in>set as. matches v q \<longrightarrow> recordPriority q < recordPriority m) \<and>
           (\<forall>q\<in>set bs. matches v q \<longrightarrow> recordPriority q \<le> recordPriority m) \<and>
           updateParameterValidation paramName v (Some arr) (Some el) =
             Inr (Some \<lparr>textContent =
                          RatingReason (toUpperCase (toLowerCase (rating m)))
                            (if reason m = '''' then ''Standard lighting parameter''
                             else reason m),
                        className = ''validation-status '' @ toLowerCase (rating m)\<rparr>)"
proof -
  obtain bestMatch bestRating
    where run: "matchLoop v arr (None, ''bad'') = (bestMatch, bestRating)"
    by (cases "matchLoop v arr (None, ''bad'')")
  with matchLoop_spec [of v arr] have inv: "best_so_far v arr (bestMatch, bestRating)"
    by simp
  from assms have ne: "arr \<noteq> []" by auto
  from assms inv obtain m where m: "bestMatch = Some m"
    by (cases bestMatch) (auto simp add: best_so_far_def)
  with inv obtain as bs where d: "bestRating = toLowerCase (rating m)" "matches v m"
    "1 < recordPriority m" "arr = as @ m # bs"
    "\<forall>q\<in>set as. matches v q \<longrightarrow> recordPriority q < recordPriority m"
    "\<forall>q\<in>set bs. matches v q \<longrightarrow> recordPriority q \<le> recordPriority m"
    by (auto simp add: best_so_far_def)
  from d(1,3) have "getRatingPriority bestRating \<noteq> getRatingPriority ''bad''"
    by (simp add: recordPriority_def priority_values)
  then have nb: "bestRating \<noteq> ''bad''" by auto
  from run m ne nb d(1)
  have "updateParameterValidation paramName v (Some arr) (Some el) =
      Inr (Some \<lparr>textContent =
                   RatingReason (toUpperCase (toLowerCase (rating m)))
                     (if reason m = '''' then ''Standard lighting parameter'' else reason m),
                 className = ''validation-status '' @ toLowerCase (rating m)\<rparr>)"
    by (simp add: updateParameterValidation_def Let_def)
  with d(2,4,5,6) show ?thesis by blast
qed

lemma updateParameterValidation_unmatched:
  assumes "\<forall>q\<in>set arr. \<not> matches v q" and "\<exists>q\<in>set arr. prange q \<noteq> None"
  shows "\<exists>as c bs rg. arr = as @ c # bs \<and> prange c = Some rg \<and>
           (\<forall>q\<in>set as. \<forall>r. prange q = Some r \<longrightarrow> boundDistance v rg < boundDistance v r) \<and>
           (\<forall>q\<in>set bs. \<forall>r. prange q = Some r \<longrightarrow> boundDistance v rg \<le> boundDistance v r) \<and>
           updateParameterValidation paramName v (Some arr) (Some el) =
             Inr (Some \<lparr>textContent =
                          OutsideRecommendedRange (range_min rg) (range_max rg)
                            (getUnit paramName),
                        className = ''validation-status bad''\<rparr>)"
proof -
  obtain bestMatch bestRating
    where run: "matchLoop v arr (None, ''bad'') = (bestMatch, bestRating)"
    by (cases "matchLoop v arr (None, ''bad'')")
  with matchLoop_spec [of v arr] have "best_so_far v arr (bestMatch, bestRating)"
    by simp
  with assms(1) have none: "bestMatch = None"
    by (cases bestMatch) (auto simp add: best_so_far_def)
  obtain closest closestDistance
    where run2: "closestLoop v arr (None, None) = (closest, closestDistance)"
    by (cases "closestLoop v arr (None, None)")
  with closestLoop_spec [of v arr] have inv: "closest_so_far v arr (closest, closestDistance)"
    by simp
  from assms(2) have ne: "arr \<noteq> []" by auto
  from assms(2) inv obtain c where c: "closest = Some c"
    by (cases closest) (auto simp add: closest_so_far_def)
  with inv obtain rg as bs where d: "prange c = Some rg" "arr = as @ c # bs"
    "\<forall>q\<in>set as. \<forall>r. prange q = Some r \<longrightarrow> boundDistance v rg < boundDistance v r"
    "\<forall>q\<in>set bs. \<forall>r. prange q = Some r \<longrightarrow> boundDistance v rg \<le> boundDistance v r"
    by (auto simp add: closest_so_far_def)
  from assms(1) have "\<not> list_ex (matches v) arr" by (simp add: list_ex_iff)
  with run none run2 c ne d(1)
  have "updateParameterValidation paramName v (Some arr) (Some el) =
      Inr (Some \<lparr>textContent =
                   OutsideRecommendedRange (range_min rg) (range_max rg) (getUnit paramName),
                 className = ''validation-status bad''\<rparr>)"
    by (simp add: updateParameterValidation_def Let_def)
  with d show ?thesis by blast
qed

lemma comparisonCard_matched:
  assumes "\<exists>q\<in>set arr. matches v q" and "\<forall>q\<in>set arr. prange q \<noteq> None"
  shows "\<exists>as m bs rg. arr = as @ m # bs \<and> prange m = Some rg \<and> inRange v rg \<and>
           (\<forall>q\<in>set bs. \<not> matches v q) \<and>
           comparisonCard p v arr =
             Inr (RatingCard
                    (if rating m = ''good'' then ''alert-success'' else ''alert-danger'')
                    (toUpperCase (rating m)) (reason m) (recommendation m)
                    (range_min rg) (range_max rg) (getUnit p))"
proof -
  from findBestMatch_total [OF assms(2)] obtain bestMatch bestRating
    where run: "findBestMatch v arr (None, ''unknown'') = Inr (bestMatch, bestRating)"
    by fastforce
  from findBestMatch_spec [OF this] have inv: "last_match_so_far v arr (bestMatch, bestRating)" .
  with assms(1) obtain m where m: "bestMatch = Some m"
    by (cases bestMatch) (auto simp add: last_match_so_far_def)
  with inv obtain as bs where d: "bestRating = rating m" "matches v m" "arr = as @ m # bs"
    "\<forall>q\<in>set bs. \<not> matches v q"
    by (auto simp add: last_match_so_far_def)
  from d(2) obtain rg where rg: "prange m = Some rg" "inRange v rg"
    by (auto simp add: matches_def split: option.splits)
  from run m d(1) rg(1)
  have "comparisonCard p v arr =
      Inr (RatingCard (if rating m = ''good'' then ''alert-success'' else ''alert-danger'')
             (toUpperCase (rating m)) (reason m) (recommendation m)
             (range_min rg) (range_max rg) (getUnit p))"
    by (simp add: comparisonCard_def)
  with d(3,4) rg show ?thesis by blast
qed

lemma comparisonCard_unmatched:
  assumes "arr \<noteq> []" and "\<forall>q\<in>set arr. \<not> matches v q" and "\<forall>q\<in>set arr. prange q \<noteq> None"
  shows "\<exists>as c bs rg. arr = as @ c # bs \<and> prange c = Some rg \<and>
           (\<forall>q\<in>set as. \<forall>r. prange q = Some r \<longrightarrow>
              midpointDistance v rg < midpointDistance v r) \<and>
           (\<forall>q\<in>set bs. \<forall>r. prange q = Some r \<longrightarrow>
              midpointDistance v rg \<le> midpointDistance v r) \<and>
           comparisonCard p v arr =
             Inr (OutsideCard v (getUnit p) (range_min rg) (range_max rg) (getUnit p)
                    (recommendation c))"
proof -
  from findBestMatch_total [OF assms(3)] obtain bestMatch bestRating
    where run: "findBestMatch v arr (None, ''unknown'') = Inr (bestMatch, bestRating)"
    by fastforce
  from findBestMatch_spec [OF this] have "last_match_so_far v arr (bestMatch, bestRating)" .
  with assms(2) have none: "bestMatch = None"
    by (cases bestMatch) (auto simp add: last_match_so_far_def)
  from findClosestRange_total [OF assms(3)] obtain closestRange minDistance
    where run2: "findClosestRange v arr (None, None) = Inr (closestRange, minDistance)"
    by fastforce
  from findClosestRange_spec [OF this]
  have inv: "nearest_so_far v arr (closestRange, minDistance)" .
  with assms(1) obtain c where c: "closestRange = Some c"
    by (cases closestRange) (auto simp add: nearest_so_far_def)
  with inv obtain rg as bs where d: "prange c = Some rg" "arr = as @ c # bs"
    "\<forall>q\<in>set as. \<forall>r. prange q = Some r \<longrightarrow> midpointDistance v rg < midpointDistance v r"
    "\<forall>q\<in>set bs. \<forall>r. prange q = Some r \<longrightarrow> midpointDistance v rg \<le> midpointDistance v r"
    by (auto simp add: nearest_so_far_def)
  from run none run2 c d(1)
  have "comparisonCard p v arr =
      Inr (OutsideCard v (getUnit p) (range_min rg) (range_max rg) (getUnit p)
                    (recommendation c))"
    by (simp add: comparisonCard_def)
  with d show ?thesis by blast
qed

lemma findBestMatch_no_match:
  "\<forall>q\<in>set arr. \<not> matches v q \<Longrightarrow> \<forall>q\<in>set arr. prange q \<noteq> None \<Longrightarrow>
   findBestMatch v arr st = Inr st"
proof (induction arr)
  case Nil
  then show ?case by simp
next
  case (Cons p arr)
  obtain bestMatch bestRating where st: "st = (bestMatch, bestRating)" by (cases st)
  from Cons.prems obtain rg where rg: "prange p = Some rg" "\<not> inRange v rg"
    by (auto simp add: matches_def)
  from Cons show ?case by (simp add: st rg)
qed

text \<open>
  A record rated bad never replaces the initial state of the first loop of
  \<^verbatim>\<open>updateParameterValidation\<close>, whose rating is bad already. When the only record
  holding the value is rated bad, the second loop picks the record with the nearest bound,
  which can be another one, and the text shows that one's reason.
\<close>

lemma bad_only_match_example:
  "updateParameterValidation ''CCT'' 5
     (Some [\<lparr>prange = Some \<lparr>range_min = 0, range_max = 10\<rparr>, rating = ''bad'',
              reason = ''holds the value'', recommendation = ''a''\<rparr>,
            \<lparr>prange = Some \<lparr>range_min = 6, range_max = 20\<rparr>, rating = ''good'',
              reason = ''does not'', recommendation = ''b''\<rparr>])
     (Some \<lparr>textContent = NoDataAvailable, className = ''''\<rparr>) =
   Inr (Some \<lparr>textContent = RatingReason ''BAD'' ''does not'',
              className = ''validation-status bad''\<rparr>)"
  by (simp add: updateParameterValidation_def matches_def inRange_def closer_def
      getRatingPriority_def toLowerCase_def toLowerCase_char_def toUpperCase_def
      toUpperCase_char_def Let_def)

section \<open>The environment score: auxiliary facts\<close>

lemma scored_counted: "scored currentValues e \<Longrightarrow> counted currentValues e"
  by (auto simp add: scored_def counted_def matches_def split: prod.splits option.splits)

lemma scoreLoop_counts:
  "scoreLoop currentValues envData (totalScore, totalParams, recommendations) = (s, n, rs) \<Longrightarrow>
   s = totalScore + length (filter (scored currentValues) envData) \<and>
   n = totalParams + length (filter (counted currentValues) envData)"
proof (induction envData arbitrary: totalScore totalParams recommendations)
  case Nil
  then show ?case by simp
next
  case (Cons e envData)
  obtain p pd where e: "e = (p, pd)" by (cases e)
  show ?case
  proof (cases "counted currentValues e")
    case False
    with e Cons.prems
    have "scoreLoop currentValues envData (totalScore, totalParams, recommendations) = (s, n, rs)"
      by (auto simp add: counted_def split: if_splits option.splits)
    from Cons.IH [OF this] False scored_counted [of currentValues e] show ?thesis by auto
  next
    case True
    then obtain v rg where v: "currentValues p = Some v" "prange pd = Some rg"
      and key: "p \<noteq> ''range''" "p \<noteq> ''images''"
      using e by (auto simp add: counted_def)
    show ?thesis
    proof (cases "inRange v rg")
      case True
      with v key e have sc: "scored currentValues e" by (simp add: scored_def matches_def)
      from Cons.prems e v key True obtain recs'
        where "scoreLoop currentValues envData (totalScore + 1, totalParams + 1, recs') = (s, n, rs)"
        by simp
      from Cons.IH [OF this] sc \<open>counted currentValues e\<close> show ?thesis by simp
    next
      case False
      with v key e have sc: "\<not> scored currentValues e" by (simp add: scored_def matches_def)
      from Cons.prems e v key False obtain recs'
        where "scoreLoop currentValues envData (totalScore, totalParams + 1, recs') = (s, n, rs)"
        by simp
      from Cons.IH [OF this] sc \<open>counted currentValues e\<close> show ?thesis by simp
    qed
  qed
qed

lemma length_filter_scored_le:
  "length (filter (scored currentValues) envData) \<le> length (filter (counted currentValues) envData)"
  by (induction envData) (auto dest: scored_counted)

text \<open>
  The bounds shown by the message of \<^verbatim>\<open>updateRecommendationCards\<close>: for Flicker the
  stored bounds go back through \<open>10000 / x\<close> and swap places, for any other parameter they
  are shown as stored.
\<close>

lemma outside_message_bounds:
  "range_min rg \<noteq> 0 \<Longrightarrow> range_max rg \<noteq> 0 \<Longrightarrow>
   lowerBound ''Flicker'' rg = Some (10000 / range_max rg) \<and>
   upperBound ''Flicker'' rg = Some (10000 / range_min rg)"
  "p \<noteq> ''Flicker'' \<Longrightarrow>
   lowerBound p rg = Some (range_min rg) \<and> upperBound p rg = Some (range_max rg)"
  by (simp_all add: lowerBound_def upperBound_def js_div_def)

section \<open>Properties of the lighting transform\<close>

text \<open>
  C4. The channel multipliers are chosen by seven ascending buckets of the Kelvin input,
  each closed at its upper end: up to 2000 gives (1.8, 0.8, 0.4), up to 3000 gives
  (1.6, 0.9, 0.5), up to 4000 gives (1.3, 1.0, 0.7), up to 5000 gives (1.1, 1.0, 0.9), up
  to 6000 gives (0.9, 1.0, 1.1), up to 7000 gives (0.7, 0.9, 1.3), and anything above gives
  (0.5, 0.8, 1.6); at exactly 5000 the multipliers are (1.1, 1.0, 0.9).
\<close>

theorem kelvin_buckets:
  "(cct \<le> 2000 \<longrightarrow> kelvinMultipliers cct = (1.8, 0.8, 0.4)) \<and>
   (2000 < cct \<and> cct \<le> 3000 \<longrightarrow> kelvinMultipliers cct = (1.6, 0.9, 0.5)) \<and>
   (3000 < cct \<and> cct \<le> 4000 \<longrightarrow> kelvinMultipliers cct = (1.3, 1.0, 0.7)) \<and>
   (4000 < cct \<and> cct \<le> 5000 \<longrightarrow> kelvinMultipliers cct = (1.1, 1.0, 0.9)) \<and>
   (5000 < cct \<and> cct \<le> 6000 \<longrightarrow> kelvinMultipliers cct = (0.9, 1.0, 1.1)) \<and>
   (6000 < cct \<and> cct \<le> 7000 \<longrightarrow> kelvinMultipliers cct = (0.7, 0.9, 1.3)) \<and>
   (7000 < cct \<longrightarrow> kelvinMultipliers cct = (0.5, 0.8, 1.6)) \<and>
   kelvinMultipliers 5000 = (1.1, 1.0, 0.9)"
  by (simp add: kelvinMultipliers_def)

theorem kelvin_buckets_witness:
  "kelvinMultipliers 2000 = (1.8, 0.8, 0.4) \<and> kelvinMultipliers 2001 = (1.6, 0.9, 0.5) \<and>
   kelvinMultipliers 6500 = (0.7, 0.9, 1.3) \<and> kelvinMultipliers 7001 = (0.5, 0.8, 1.6)"
  using kelvin_buckets [of 2000] kelvin_buckets [of 2001] kelvin_buckets [of 6500]
    kelvin_buckets [of 7001]
  by simp

text \<open>
  C5. The brightness multiplier is \<open>1.0 + (glare / 19) * 0.3\<close> for a glare of at most 19,
  which lies between 1.0 and 1.3 when the glare is between 0 and 19, and
  \<open>1.3 + ((glare - 19) / 9) * 2.7\<close> above 19, with no upper clamp: beyond a glare of 28 it
  exceeds 4.0. A glare of 19 gives 1.3 and a glare of 28 gives 4.0.
\<close>

theorem glare_brightness:
  "(glare \<le> 19 \<longrightarrow> brightnessMultiplier glare = 1.0 + (glare / 19) * 0.3) \<and>
   (0 \<le> glare \<and> glare \<le> 19 \<longrightarrow>
      1.0 \<le> brightnessMultiplier glare \<and> brightnessMultiplier glare \<le> 1.3) \<and>
   (19 < glare \<longrightarrow> brightnessMultiplier glare = 1.3 + ((glare - 19) / 9) * 2.7) \<and>
   (28 < glare \<longrightarrow> 4.0 < brightnessMultiplier glare) \<and>
   brightnessMultiplier 19 = 1.3 \<and> brightnessMultiplier 28 = 4.0"
proof -
  have low: "brightnessMultiplier glare = 1.0 + (glare / 19) * 0.3" if "glare \<le> 19"
    using that by (simp add: brightnessMultiplier_def)
  have high: "brightnessMultiplier glare = 1.3 + ((glare - 19) / 9) * 2.7" if "19 < glare"
    using that by (simp add: brightnessMultiplier_def Let_def)
  have bounds: "1.0 \<le> brightnessMultiplier glare \<and> brightnessMultiplier glare \<le> 1.3"
    if "0 \<le> glare" "glare \<le> 19"
    using that by (simp add: low)
  have beyond: "4.0 < brightnessMultiplier glare" if "28 < glare"
  proof -
    from that have "19 < glare" by simp
    then have "brightnessMultiplier glare = 1.3 + ((glare - 19) / 9) * 2.7" by (rule high)
    moreover have "1.3 + ((glare - 19) / 9) * 2.7 = 0.3 * glare - 4.4"
      by (simp add: field_simps)
    ultimately show ?thesis using that by simp
  qed
  have at19: "brightnessMultiplier 19 = 1.3" and at28: "brightnessMultiplier 28 = 4.0"
    by (simp_all add: brightnessMultiplier_def Let_def)
  from low high bounds beyond at19 at28 show ?thesis by blast
qed

theorem glare_brightness_witness:
  "brightnessMultiplier 0 = 1 \<and> brightnessMultiplier 37 = 6.7 \<and>
   4.0 < brightnessMultiplier 37"
  using glare_brightness [of 0] glare_brightness [of 37]
  by simp





text \<open>
  C9. The transform is deterministic: two invocations on the same input buffer (a
  well-formed image, so of at least one pixel) with the same cct, cri, glare and flicker
  paint the same bytes, whatever else the state holds; the input buffer is not modified,
  so a repeated invocation starts from the same buffer.
\<close>

theorem render_deterministic:
  assumes "originalImageData s1 = Some img" and "originalImageData s2 = Some img"
    and "well_formed img"
  shows "\<exists>s1' s2' out.
           processImageWithLighting cct cri glare flicker s1 = Inr s1' \<and>
           processImageWithLighting cct cri glare flicker s2 = Inr s2' \<and>
           canvasPixels s1' = Some out \<and> canvasPixels s2' = Some out \<and>
           originalImageData s1' = Some img \<and> originalImageData s2' = Some img"
  using assms by (simp add: process_returns)

theorem render_deterministic_witness:
  "\<exists>s1' s2' out.
     processImageWithLighting 5000 80 6 100
       \<lparr>originalImageData = Some \<lparr>data = [200, 100, 50, 255], width = 1, height = 1\<rparr>,
        canvasPixels = None\<rparr> = Inr s1' \<and>
     processImageWithLighting 5000 80 6 100
       \<lparr>originalImageData = Some \<lparr>data = [200, 100, 50, 255], width = 1, height = 1\<rparr>,
        canvasPixels = Some \<lparr>data = [211, 116, 73, 255], width = 1, height = 1\<rparr>\<rparr> = Inr s2' \<and>
     canvasPixels s1' = Some out \<and> canvasPixels s2' = Some out \<and>
     originalImageData s1' = Some \<lparr>data = [200, 100, 50, 255], width = 1, height = 1\<rparr> \<and>
     originalImageData s2' = Some \<lparr>data = [200, 100, 50, 255], width = 1, height = 1\<rparr>"
proof -
  let ?img = "\<lparr>data = [200, 100, 50, 255], width = 1, height = 1\<rparr>"
  have wf: "well_formed ?img" by (simp add: well_formed_def)
  have o1: "originalImageData \<lparr>originalImageData = Some ?img, canvasPixels = None\<rparr> = Some ?img"
    and o2: "originalImageData \<lparr>originalImageData = Some ?img,
        canvasPixels = Some \<lparr>data = [211, 116, 73, 255], width = 1, height = 1\<rparr>\<rparr> = Some ?img"
    by simp_all
  show ?thesis by (rule render_deterministic [OF o1 o2 wf])
qed

text \<open>
  C10. The transform leaves the alpha byte of every pixel as it is in the input: the loop
  writes the bytes at \<open>i\<close>, \<open>i + 1\<close> and \<open>i + 2\<close> of each pixel of four bytes only, and the
  output has the size and dimensions of the input.
\<close>

theorem alpha_unchanged:
  assumes "originalImageData s = Some img"
    and "processImageWithLighting cct cri glare flicker s = Inr s'"
  shows "\<exists>out. canvasPixels s' = Some out \<and> length (data out) = length (data img) \<and>
           width out = width img \<and> height out = height img \<and>
           (\<forall>j<length (data out). j mod 4 = 3 \<longrightarrow> data out ! j = data img ! j)"
proof -
  let ?out = "img\<lparr>data :=
    pixelLoop (kelvinMultipliers cct) (brightnessMultiplier glare) cri 0 (data img)\<rparr>"
  from process_result [OF assms] have out: "canvasPixels s' = Some ?out" by simp
  have "data ?out ! j = data img ! j" if "j mod 4 = 3" for j
    using that by (simp add: pixelLoop_unchanged)
  with out show ?thesis by (simp add: length_pixelLoop)
qed

theorem alpha_unchanged_witness:
  "\<exists>out. Some \<lparr>data = [211, 116, 73, 255], width = 1, height = 1\<rparr> = Some out \<and>
     length (data out) = 4 \<and> width out = 1 \<and> height out = 1 \<and>
     (3::nat) < length (data out) \<and> (3::nat) mod 4 = 3 \<and> data out ! 3 = 255"
proof -
  let ?img = "\<lparr>data = [200, 100, 50, 255], width = 1, height = 1\<rparr>"
  let ?s = "\<lparr>originalImageData = Some ?img, canvasPixels = None\<rparr>"
  have orig: "originalImageData ?s = Some ?img" by simp
  from alpha_unchanged [OF orig example_run] show ?thesis by simp
qed

section \<open>Properties of the range matchers and of the score\<close>

text \<open>
  C1, as the code has it. The priorities are good 3, medium 2, bad 1 and 0 for any other
  label. When one or more records of a non-empty list hold the value in their closed range:
  \<^verbatim>\<open>updateParameterValidation\<close>, provided one of them is rated better than bad, selects
  the first, in catalog order, of the matching records of highest priority and shows its
  lower-cased rating and its reason; \<^verbatim>\<open>comparisonCards\<close>, on records that all have a
  range, selects the last matching record whatever its rating and shows its rating, reason,
  recommendation and range.
\<close>

theorem matched_record_selection:
  assumes "arr \<noteq> []" and "\<exists>q\<in>set arr. matches v q"
  shows "getRatingPriority ''good'' = 3 \<and> getRatingPriority ''medium'' = 2 \<and>
         getRatingPriority ''bad'' = 1 \<and> getRatingPriority ''unknown'' = 0 \<and>
         ((\<exists>q\<in>set arr. matches v q \<and> 1 < recordPriority q) \<longrightarrow>
            (\<exists>as m bs. arr = as @ m # bs \<and> matches v m \<and>
               (\<forall>q\<in>set as. matches v q \<longrightarrow> recordPriority q < recordPriority m) \<and>
               (\<forall>q\<in>set bs. matches v q \<longrightarrow> recordPriority q \<le> recordPriority m) \<and>
               updateParameterValidation paramName v (Some arr) (Some el) =
                 Inr (Some \<lparr>textContent =
                              RatingReason (toUpperCase (toLowerCase (rating m)))
                                (if reason m = '''' then ''Standard lighting parameter''
                                 else reason m),
                            className = ''validation-status '' @ toLowerCase (rating m)\<rparr>))) \<and>
         ((\<forall>q\<in>set arr. prange q \<noteq> None) \<longrightarrow>
            (\<exists>as m bs rg. arr = as @ m # bs \<and> prange m = Some rg \<and> inRange v rg \<and>
               (\<forall>q\<in>set bs. \<not> matches v q) \<and>
               comparisonCard p v arr =
                 Inr (RatingCard
                        (if rating m = ''good'' then ''alert-success'' else ''alert-danger'')
                        (toUpperCase (rating m)) (reason m) (recommendation m)
                        (range_min rg) (range_max rg) (getUnit p))))"
  using assms(2) updateParameterValidation_matched [of arr v paramName el]
    comparisonCard_matched [of arr v p]
  by (simp only: priority_values) blast

text \<open>
  Two records rated good whose range holds 5: \<^verbatim>\<open>updateParameterValidation\<close> shows the
  reason of the first, not of the last. A record rated good followed by one rated bad, both
  holding 5: \<^verbatim>\<open>comparisonCards\<close> shows the one rated bad, not the one of highest
  priority.
\<close>

theorem matched_record_selection_counterexample:
  "updateParameterValidation ''CCT'' 5
     (Some [\<lparr>prange = Some \<lparr>range_min = 0, range_max = 10\<rparr>, rating = ''good'',
              reason = ''first'', recommendation = ''a''\<rparr>,
            \<lparr>prange = Some \<lparr>range_min = 0, range_max = 10\<rparr>, rating = ''good'',
              reason = ''second'', recommendation = ''b''\<rparr>])
     (Some \<lparr>textContent = NoDataAvailable, className = ''''\<rparr>) =
   Inr (Some \<lparr>textContent = RatingReason ''GOOD'' ''first'',
              className = ''validation-status good''\<rparr>) \<and>
   matches 5 \<lparr>prange = Some \<lparr>range_min = 0, range_max = 10\<rparr>, rating = ''good'',
               reason = ''second'', recommendation = ''b''\<rparr> \<and>
   recordPriority \<lparr>prange = Some \<lparr>range_min = 0, range_max = 10\<rparr>, rating = ''good'',
                    reason = ''second'', recommendation = ''b''\<rparr> =
   recordPriority \<lparr>prange = Some \<lparr>range_min = 0, range_max = 10\<rparr>, rating = ''good'',
                    reason = ''first'', recommendation = ''a''\<rparr> \<and>
   comparisonCard ''CCT'' 5
     [\<lparr>prange = Some \<lparr>range_min = 0, range_max = 10\<rparr>, rating = ''good'',
       reason = ''first'', recommendation = ''a''\<rparr>,
      \<lparr>prange = Some \<lparr>range_min = 0, range_max = 10\<rparr>, rating = ''bad'',
       reason = ''second'', recommendation = ''b''\<rparr>] =
   Inr (RatingCard ''alert-danger'' ''BAD'' ''second'' ''b'' 0 10 ''K'') \<and>
   matches 5 \<lparr>prange = Some \<lparr>range_min = 0, range_max = 10\<rparr>, rating = ''good'',
               reason = ''first'', recommendation = ''a''\<rparr> \<and>
   recordPriority \<lparr>prange = Some \<lparr>range_min = 0, range_max = 10\<rparr>, rating = ''bad'',
                    reason = ''second'', recommendation = ''b''\<rparr> <
   recordPriority \<lparr>prange = Some \<lparr>range_min = 0, range_max = 10\<rparr>, rating = ''good'',
                    reason = ''first'', recommendation = ''a''\<rparr>"
  by (simp add: updateParameterValidation_def comparisonCard_def matches_def inRange_def
      recordPriority_def getRatingPriority_def toLowerCase_def toLowerCase_char_def
      toUpperCase_def toUpperCase_char_def getUnit_def Let_def)

theorem matched_record_selection_witness:
  "(\<exists>as m bs.
      [\<lparr>prange = Some \<lparr>range_min = 0, range_max = 10\<rparr>, rating = ''Medium'',
        reason = ''first'', recommendation = ''a''\<rparr>,
       \<lparr>prange = Some \<lparr>range_min = 2, range_max = 8\<rparr>, rating = ''good'',
        reason = '''', recommendation = ''b''\<rparr>] = as @ m # bs \<and>
      matches 5 m \<and>
      (\<forall>q\<in>set as. matches 5 q \<longrightarrow> recordPriority q < recordPriority m) \<and>
      (\<forall>q\<in>set bs. matches 5 q \<longrightarrow> recordPriority q \<le> recordPriority m) \<and>
      updateParameterValidation ''CCT'' 5
        (Some [\<lparr>prange = Some \<lparr>range_min = 0, range_max = 10\<rparr>, rating = ''Medium'',
                 reason = ''first'', recommendation = ''a''\<rparr>,
               \<lparr>prange = Some \<lparr>range_min = 2, range_max = 8\<rparr>, rating = ''good'',
                 reason = '''', recommendation = ''b''\<rparr>])
        (Some \<lparr>textContent = NoDataAvailable, className = ''''\<rparr>) =
      Inr (Some \<lparr>textContent =
                   RatingReason (toUpperCase (toLowerCase (rating m)))
                     (if reason m = '''' then ''Standard lighting parameter'' else reason m),
                 className = ''validation-status '' @ toLowerCase (rating m)\<rparr>)) \<and>
   (\<exists>as m bs rg.
      [\<lparr>prange = Some \<lparr>range_min = 0, range_max = 10\<rparr>, rating = ''Medium'',
        reason = ''first'', recommendation = ''a''\<rparr>,
       \<lparr>prange = Some \<lparr>range_min = 2, range_max = 8\<rparr>, rating = ''good'',
        reason = '''', recommendation = ''b''\<rparr>] = as @ m # bs \<and>
      prange m = Some rg \<and> inRange 5 rg \<and> (\<forall>q\<in>set bs. \<not> matches 5 q) \<and>
      comparisonCard ''CCT'' 5
        [\<lparr>prange = Some \<lparr>range_min = 0, range_max = 10\<rparr>, rating = ''Medium'',
          reason = ''first'', recommendation = ''a''\<rparr>,
         \<lparr>prange = Some \<lparr>range_min = 2, range_max = 8\<rparr>, rating = ''good'',
          reason = '''', recommendation = ''b''\<rparr>] =
      Inr (RatingCard (if rating m = ''good'' then ''alert-success'' else ''alert-danger'')
             (toUpperCase (rating m)) (reason m) (recommendation m)
             (range_min rg) (range_max rg) (getUnit ''CCT'')))"
proof -
  let ?a = "\<lparr>prange = Some \<lparr>range_min = 0, range_max = 10\<rparr>, rating = ''Medium'',
    reason = ''first'', recommendation = ''a''\<rparr>"
  let ?b = "\<lparr>prange = Some \<lparr>range_min = 2, range_max = 8\<rparr>, rating = ''good'',
    reason = '''', recommendation = ''b''\<rparr>"
  have ne: "[?a, ?b] \<noteq> []" by simp
  have some: "\<exists>q\<in>set [?a, ?b]. matches 5 q" by (simp add: matches_def inRange_def)
  have better: "\<exists>q\<in>set [?a, ?b]. matches 5 q \<and> 1 < recordPriority q"
    by (simp add: matches_def inRange_def recordPriority_def getRatingPriority_def
        toLowerCase_def toLowerCase_char_def)
  have ranges: "\<forall>q\<in>set [?a, ?b]. prange q \<noteq> None" by simp
  from matched_record_selection [OF ne some,
      where paramName = "''CCT''" and p = "''CCT''"
        and el = "\<lparr>textContent = NoDataAvailable, className = ''''\<rparr>"]
    better ranges
  show ?thesis by blast
qed

text \<open>
  C2, as the code has it. When no record of a non-empty list holds the value in its range:
  \<^verbatim>\<open>comparisonCards\<close>, on records that all have a range, leaves the rating at unknown,
  selects the record whose range midpoint \<open>(min + max) / 2\<close> is closest to the value, the
  first one on ties, and shows that record's range and recommendation;
  \<^verbatim>\<open>updateParameterValidation\<close> selects the record one of whose bounds is closest to the
  value, the first one on ties, forces the rating to bad and shows that record's range.
\<close>

theorem unmatched_closest_selection:
  assumes "arr \<noteq> []" and "\<forall>q\<in>set arr. \<not> matches v q"
  shows "((\<forall>q\<in>set arr. prange q \<noteq> None) \<longrightarrow>
            findBestMatch v arr (None, ''unknown'') = Inr (None, ''unknown'') \<and>
            (\<exists>as c bs rg. arr = as @ c # bs \<and> prange c = Some rg \<and>
               (\<forall>q\<in>set as. \<forall>r. prange q = Some r \<longrightarrow>
                  midpointDistance v rg < midpointDistance v r) \<and>
               (\<forall>q\<in>set bs. \<forall>r. prange q = Some r \<longrightarrow>
                  midpointDistance v rg \<le> midpointDistance v r) \<and>
               comparisonCard p v arr =
                 Inr (OutsideCard v (getUnit p) (range_min rg) (range_max rg)
                        (getUnit p) (recommendation c)))) \<and>
         ((\<exists>q\<in>set arr. prange q \<noteq> None) \<longrightarrow>
            (\<exists>as c bs rg. arr = as @ c # bs \<and> prange c = Some rg \<and>
               (\<forall>q\<in>set as. \<forall>r. prange q = Some r \<longrightarrow>
                  boundDistance v rg < boundDistance v r) \<and>
               (\<forall>q\<in>set bs. \<forall>r. prange q = Some r \<longrightarrow>
                  boundDistance v rg \<le> boundDistance v r) \<and>
               updateParameterValidation paramName v (Some arr) (Some el) =
                 Inr (Some \<lparr>textContent =
                              OutsideRecommendedRange (range_min rg) (range_max rg)
                                (getUnit paramName),
                            className = ''validation-status bad''\<rparr>)))"
  using assms comparisonCard_unmatched [of arr v p]
    updateParameterValidation_unmatched [of arr v paramName el]
    findBestMatch_no_match [of arr v "(None, ''unknown'')"]
  by blast

text \<open>
  The value 5200 lies outside the ranges 3000 to 5000 and 5600 to 5700. The midpoint of the
  second is the closer one, and \<^verbatim>\<open>updateParameterValidation\<close> reports the first, whose
  upper bound is closer.
\<close>

theorem unmatched_closest_selection_counterexample:
  "updateParameterValidation ''CCT'' 5200
     (Some [\<lparr>prange = Some \<lparr>range_min = 3000, range_max = 5000\<rparr>, rating = ''good'',
              reason = ''first'', recommendation = ''a''\<rparr>,
            \<lparr>prange = Some \<lparr>range_min = 5600, range_max = 5700\<rparr>, rating = ''medium'',
              reason = ''second'', recommendation = ''b''\<rparr>])
     (Some \<lparr>textContent = NoDataAvailable, className = ''''\<rparr>) =
   Inr (Some \<lparr>textContent = OutsideRecommendedRange 3000 5000 ''K'',
              className = ''validation-status bad''\<rparr>) \<and>
   \<not> inRange 5200 \<lparr>range_min = 3000, range_max = 5000\<rparr> \<and>
   \<not> inRange 5200 \<lparr>range_min = 5600, range_max = 5700\<rparr> \<and>
   midpointDistance 5200 \<lparr>range_min = 5600, range_max = 5700\<rparr> <
   midpointDistance 5200 \<lparr>range_min = 3000, range_max = 5000\<rparr>"
  by (simp add: updateParameterValidation_def matches_def inRange_def closer_def
      midpointDistance_def getRatingPriority_def toLowerCase_def toLowerCase_char_def
      getUnit_def Let_def)

theorem unmatched_closest_selection_witness:
  "(\<exists>as c bs rg.
      [\<lparr>prange = Some \<lparr>range_min = 3000, range_max = 5000\<rparr>, rating = ''good'',
        reason = ''first'', recommendation = ''a''\<rparr>,
       \<lparr>prange = Some \<lparr>range_min = 5600, range_max = 5700\<rparr>, rating = ''medium'',
        reason = ''second'', recommendation = ''b''\<rparr>] = as @ c # bs \<and>
      prange c = Some rg \<and>
      (\<forall>q\<in>set as. \<forall>r. prange q = Some r \<longrightarrow>
         midpointDistance 5200 rg < midpointDistance 5200 r) \<and>
      (\<forall>q\<in>set bs. \<forall>r. prange q = Some r \<longrightarrow>
         midpointDistance 5200 rg \<le> midpointDistance 5200 r) \<and>
      comparisonCard ''CCT'' 5200
        [\<lparr>prange = Some \<lparr>range_min = 3000, range_max = 5000\<rparr>, rating = ''good'',
          reason = ''first'', recommendation = ''a''\<rparr>,
         \<lparr>prange = Some \<lparr>range_min = 5600, range_max = 5700\<rparr>, rating = ''medium'',
          reason = ''second'', recommendation = ''b''\<rparr>] =
      Inr (OutsideCard 5200 (getUnit ''CCT'') (range_min rg) (range_max rg)
             (getUnit ''CCT'') (recommendation c))) \<and>
   (\<exists>as c bs rg.
      [\<lparr>prange = Some \<lparr>range_min = 3000, range_max = 5000\<rparr>, rating = ''good'',
        reason = ''first'', recommendation = ''a''\<rparr>,
       \<lparr>prange = Some \<lparr>range_min = 5600, range_max = 5700\<rparr>, rating = ''medium'',
        reason = ''second'', recommendation = ''b''\<rparr>] = as @ c # bs \<and>
      prange c = Some rg \<and>
      (\<forall>q\<in>set as. \<forall>r. prange q = Some r \<longrightarrow> boundDistance 5200 rg < boundDistance 5200 r) \<and>
      (\<forall>q\<in>set bs. \<forall>r. prange q = Some r \<longrightarrow> boundDistance 5200 rg \<le> boundDistance 5200 r) \<and>
      updateParameterValidation ''CCT'' 5200
        (Some [\<lparr>prange = Some \<lparr>range_min = 3000, range_max = 5000\<rparr>, rating = ''good'',
                 reason = ''first'', recommendation = ''a''\<rparr>,
               \<lparr>prange = Some \<lparr>range_min = 5600, range_max = 5700\<rparr>, rating = ''medium'',
                 reason = ''second'', recommendation = ''b''\<rparr>])
        (Some \<lparr>textContent = NoDataAvailable, className = ''''\<rparr>) =
      Inr (Some \<lparr>textContent =
                   OutsideRecommendedRange (range_min rg) (range_max rg) (getUnit ''CCT''),
                 className = ''validation-status bad''\<rparr>))"
proof -
  let ?a = "\<lparr>prange = Some \<lparr>range_min = 3000, range_max = 5000\<rparr>, rating = ''good'',
    reason = ''first'', recommendation = ''a''\<rparr>"
  let ?b = "\<lparr>prange = Some \<lparr>range_min = 5600, range_max = 5700\<rparr>, rating = ''medium'',
    reason = ''second'', recommendation = ''b''\<rparr>"
  have ne: "[?a, ?b] \<noteq> []" by simp
  have none: "\<forall>q\<in>set [?a, ?b]. \<not> matches 5200 q" by (simp add: matches_def inRange_def)
  have ranges: "\<forall>q\<in>set [?a, ?b]. prange q \<noteq> None" by simp
  then have one: "\<exists>q\<in>set [?a, ?b]. prange q \<noteq> None" by simp
  from unmatched_closest_selection [OF ne none,
      where paramName = "''CCT''" and p = "''CCT''"
        and el = "\<lparr>textContent = NoDataAvailable, className = ''''\<rparr>"]
    ranges one
  show ?thesis by blast
qed

text \<open>
  C3 on \<^verbatim>\<open>updateParameterValidation\<close> and \<^verbatim>\<open>comparisonCards\<close>. A flicker reading of
  100 against a stored range of 1 to 8: both show the stored bounds 1 and 8 under the unit
  HZ, where \<^verbatim>\<open>updateRecommendationCards\<close> shows them taken back through \<open>10000 / x\<close>,
  1250 and 10000.
\<close>

theorem flicker_status_shows_stored_bounds:
  "updateParameterValidation ''Flicker'' 100
     (Some [\<lparr>prange = Some \<lparr>range_min = 1, range_max = 8\<rparr>, rating = ''good'',
              reason = ''r'', recommendation = ''rec''\<rparr>])
     (Some \<lparr>textContent = NoDataAvailable, className = ''''\<rparr>) =
   Inr (Some \<lparr>textContent = OutsideRecommendedRange 1 8 ''HZ'',
              className = ''validation-status bad''\<rparr>) \<and>
   comparisonCard ''Flicker'' 100
     [\<lparr>prange = Some \<lparr>range_min = 1, range_max = 8\<rparr>, rating = ''good'',
       reason = ''r'', recommendation = ''rec''\<rparr>] =
   Inr (OutsideCard 100 ''HZ'' 1 8 ''HZ'' ''rec'') \<and>
   scoreLoop [''Flicker'' \<mapsto> 100]
     [(''Flicker'', \<lparr>prange = Some \<lparr>range_min = 1, range_max = 8\<rparr>, rating = ''good'',
                     reason = ''r'', recommendation = ''rec''\<rparr>)] (0, 0, []) =
   (0, 1, [\<lparr>item_param = ''Flicker'', item_status = ''Not Recommended'',
             item_reason = OutsideRange 100 ''HZ'' (Some 1250) (Some 10000) ''HZ'',
             item_recommendation = ''rec''\<rparr>])"
  by (simp add: updateParameterValidation_def comparisonCard_def matches_def inRange_def
      closer_def getRatingPriority_def toLowerCase_def toLowerCase_char_def getUnit_def
      lowerBound_def upperBound_def js_div_def Let_def)

text \<open>
  C8. The percentage of an environment is \<open>totalScore / totalParams * 100\<close> when parameters
  were counted and 0 when none was, in particular when no key of the environment has a
  current value. It is always a number, between 0 and 100: the division is only made by a
  positive \<open>totalParams\<close>.
\<close>

theorem percentage_defined:
  assumes "environmentScore currentValues envData = (totalScore, totalParams, percentage)"
  shows "totalParams = length (filter (counted currentValues) envData) \<and>
         totalScore = length (filter (scored currentValues) envData) \<and>
         totalScore \<le> totalParams \<and>
         (0 < totalParams \<longrightarrow> percentage = Some (real totalScore / real totalParams * 100)) \<and>
         (totalParams = 0 \<longrightarrow> percentage = Some 0) \<and>
         (\<exists>q. percentage = Some q \<and> 0 \<le> q \<and> q \<le> 100) \<and>
         ((\<forall>e\<in>set envData. currentValues (fst e) = None) \<longrightarrow>
            totalParams = 0 \<and> percentage = Some 0)"
proof -
  obtain recommendations
    where run: "scoreLoop currentValues envData (0, 0, []) =
      (totalScore, totalParams, recommendations)"
    and pct: "percentage = recommendationPercentage totalScore totalParams"
    using assms by (auto simp add: environmentScore_def split: prod.splits)
  from scoreLoop_counts [OF run]
  have counts: "totalScore = length (filter (scored currentValues) envData)"
    "totalParams = length (filter (counted currentValues) envData)"
    by simp_all
  with length_filter_scored_le [of currentValues envData]
  have le: "totalScore \<le> totalParams" by simp
  have pos: "percentage = Some (real totalScore / real totalParams * 100)" if "0 < totalParams"
    using that pct by (simp add: recommendationPercentage_def js_div_def)
  have zero: "percentage = Some 0" if "totalParams = 0"
    using that pct by (simp add: recommendationPercentage_def)
  have range: "\<exists>q. percentage = Some q \<and> 0 \<le> q \<and> q \<le> 100"
  proof (cases "0 < totalParams")
    case True
    from le True have "real totalScore / real totalParams \<le> 1" by simp
    then have "real totalScore / real totalParams * 100 \<le> 1 * 100"
      by (rule mult_right_mono) simp
    moreover have "0 \<le> real totalScore / real totalParams * 100" by simp
    ultimately show ?thesis using pos [OF True] by simp
  next
    case False
    with zero show ?thesis by simp
  qed
  have absent: "totalParams = 0 \<and> percentage = Some 0"
    if "\<forall>e\<in>set envData. currentValues (fst e) = None"
  proof -
    from that have "filter (counted currentValues) envData = []"
      by (auto simp add: filter_empty_conv counted_def)
    with counts(2) have "totalParams = 0" by simp
    with zero show ?thesis by simp
  qed
  from counts le pos zero range absent show ?thesis by blast
qed

theorem percentage_defined_witness:
  "environmentScore [''CCT'' \<mapsto> 4000, ''CRI'' \<mapsto> 70]
     [(''CCT'', \<lparr>prange = Some \<lparr>range_min = 3000, range_max = 5000\<rparr>, rating = '''',
                 reason = ''r1'', recommendation = ''c1''\<rparr>),
      (''images'', \<lparr>prange = Some \<lparr>range_min = 0, range_max = 1\<rparr>, rating = '''',
                    reason = '''', recommendation = ''''\<rparr>),
      (''CRI'', \<lparr>prange = Some \<lparr>range_min = 80, range_max = 100\<rparr>, rating = '''',
                 reason = ''r2'', recommendation = ''c2''\<rparr>),
      (''emotion'', \<lparr>prange = None, rating = '''', reason = '''', recommendation = ''''\<rparr>)] =
   (1, 2, Some 50) \<and>
   (\<exists>q. Some (50::real) = Some q \<and> 0 \<le> q \<and> q \<le> 100) \<and>
   (0::nat) < 2 \<and> Some (50::real) = Some (real (1::nat) / real (2::nat) * 100) \<and>
   (0::nat) = 0 \<and> Some (0::real) = Some 0"
proof -
  let ?cv = "[''CCT'' \<mapsto> 4000 :: real, ''CRI'' \<mapsto> 70]"
  let ?cct = "(''CCT'', \<lparr>prange = Some \<lparr>range_min = 3000, range_max = 5000\<rparr>, rating = '''',
    reason = ''r1'', recommendation = ''c1''\<rparr>)"
  let ?env = "[?cct,
    (''images'', \<lparr>prange = Some \<lparr>range_min = 0, range_max = 1\<rparr>, rating = '''',
                  reason = '''', recommendation = ''''\<rparr>),
    (''CRI'', \<lparr>prange = Some \<lparr>range_min = 80, range_max = 100\<rparr>, rating = '''',
               reason = ''r2'', recommendation = ''c2''\<rparr>),
    (''emotion'', \<lparr>prange = None, rating = '''', reason = '''', recommendation = ''''\<rparr>)]"
  have run: "environmentScore ?cv ?env = (1, 2, Some 50)"
    by (simp add: environmentScore_def recommendationPercentage_def js_div_def inRange_def)
  have run0: "environmentScore (Map.empty :: string \<rightharpoonup> real) [?cct] = (0, 0, Some 0)"
    by (simp add: environmentScore_def recommendationPercentage_def)
  have absent: "\<forall>e\<in>set [?cct]. (Map.empty :: string \<rightharpoonup> real) (fst e) = None" by simp
  note some = percentage_defined [OF run]
  note none = percentage_defined [OF run0]
  have "\<exists>q. Some (50::real) = Some q \<and> 0 \<le> q \<and> q \<le> 100"
    by (rule some [THEN conjunct2, THEN conjunct2, THEN conjunct2, THEN conjunct2,
          THEN conjunct2, THEN conjunct1])
  moreover have counted: "(0::nat) < 2" by simp
  moreover have "Some (50::real) = Some (real (1::nat) / real (2::nat) * 100)"
    by (rule some [THEN conjunct2, THEN conjunct2, THEN conjunct2, THEN conjunct1,
          THEN mp, OF counted])
  moreover have "(0::nat) = 0 \<and> Some (0::real) = Some 0"
    by (rule none [THEN conjunct2, THEN conjunct2, THEN conjunct2, THEN conjunct2,
          THEN conjunct2, THEN conjunct2, THEN mp, OF absent])
  ultimately show ?thesis using run by blast
qed

end
